theory Spec2Isabelle
  imports Complex_Main
begin

section \<open>JavaScript values shared by the workers\<close>

text \<open>
  The workers are TypeScript modules running on a JavaScript engine. Numbers are
  modelled as reals (the rounding of IEEE doubles is abstracted away), strings as lists
  of 8-bit characters, and a rejected promise or a thrown value as the left summand of a
  sum type. A thrown value is either an \<open>Error\<close> object of some class, with its message,
  or any other value (as in \<open>throw 'text'\<close>), for which \<open>instanceof Error\<close> is false.
\<close>

datatype thrown =
    JsError string
  | JsSyntaxError string
  | JsTypeError string
  | JsNonError

fun instanceof_Error :: "thrown \<Rightarrow> bool" where
  "instanceof_Error JsNonError = False"
| "instanceof_Error e = True"

fun instanceof_SyntaxError :: "thrown \<Rightarrow> bool" where
  "instanceof_SyntaxError (JsSyntaxError m) = True"
| "instanceof_SyntaxError e = False"

fun thrown_message :: "thrown \<Rightarrow> string" where
  "thrown_message (JsError m) = m"
| "thrown_message (JsSyntaxError m) = m"
| "thrown_message (JsTypeError m) = m"
| "thrown_message JsNonError = []"

text \<open>
  JSON values, as \<open>request.json()\<close> and \<open>JSON.parse\<close> produce them and as the handlers
  build them for their \<open>details\<close>. An object keeps its members in insertion order; when a
  key occurs twice the later member is the one a property read sees. A property that is
  absent reads as \<open>undefined\<close>, modelled by \<open>None\<close>.
\<close>

datatype json =
    JNull
  | JBool bool
  | JNum real
  | JStr string
  | JArr "json list"
  | JObj "(string \<times> json) list"

fun truthy :: "json option \<Rightarrow> bool" where
  "truthy None = False"
| "truthy (Some JNull) = False"
| "truthy (Some (JBool b)) = b"
| "truthy (Some (JNum x)) = (x \<noteq> 0)"
| "truthy (Some (JStr s)) = (s \<noteq> [])"
| "truthy (Some (JArr vs)) = True"
| "truthy (Some (JObj ms)) = True"

text \<open>
  Reading a named property. The names the workers read (\<open>rules\<close>, \<open>prompt\<close>, \<open>model\<close>,
  \<open>score\<close>, \<open>orchestrator_id\<close>, ...) are no properties of a number, a string, a boolean or
  an array, so there the read gives \<open>undefined\<close>; on \<open>null\<close> it throws a \<open>TypeError\<close>.
\<close>

fun json_member :: "json \<Rightarrow> string \<Rightarrow> json option" where
  "json_member (JObj ms) k = map_of (rev ms) k"
| "json_member v k = None"

definition get_prop :: "json \<Rightarrow> string \<Rightarrow> thrown + json option" where
  "get_prop v k =
     (if v = JNull
      then Inl (JsTypeError (''Cannot read properties of null (reading '' @ [CHR 0x27] @ k
                 @ [CHR 0x27] @ '')''))
      else Inr (json_member v k))"


subsection \<open>Strings\<close>

text \<open>
  The character classes of regular expressions, on 8-bit characters: \<open>\s\<close> (the same set
  that \<open>trim\<close> removes), \<open>\d\<close>, \<open>\w\<close>, and the line terminators that \<open>.\<close> does not
  match.
\<close>

definition js_space :: "char \<Rightarrow> bool" where
  "js_space c \<longleftrightarrow>
     c \<in> set [CHR 0x09, CHR 0x0A, CHR 0x0B, CHR 0x0C, CHR 0x0D, CHR 0x20, CHR 0xA0]"

definition js_digit :: "char \<Rightarrow> bool" where
  "js_digit c \<longleftrightarrow> c \<in> set ''0123456789''"

definition js_word :: "char \<Rightarrow> bool" where
  "js_word c \<longleftrightarrow>
     c \<in> set ''abcdefghijklmnopqrstuvwxyzABCDEFGHIJKLMNOPQRSTUVWXYZ0123456789_''"

definition line_terminator :: "char \<Rightarrow> bool" where
  "line_terminator c \<longleftrightarrow> c = CHR 0x0A \<or> c = CHR 0x0D"


definition trim :: "string \<Rightarrow> string" where
  "trim s = rev (dropWhile js_space (rev (dropWhile js_space s)))"

fun js_includes :: "string \<Rightarrow> string \<Rightarrow> bool" where
  "js_includes [] sub = (sub = [])"
| "js_includes (c # cs) sub = (take (length sub) (c # cs) = sub \<or> js_includes cs sub)"

fun indexOf :: "string \<Rightarrow> string \<Rightarrow> int" where
  "indexOf [] sub = (if sub = [] then 0 else - 1)"
| "indexOf (c # cs) sub =
     (if take (length sub) (c # cs) = sub then 0
      else if indexOf cs sub < 0 then - 1
      else indexOf cs sub + 1)"

text \<open>\<open>sourceCode.split('\n')\<close> and \<open>lines.join('\n')\<close>.\<close>

fun split_lines :: "string \<Rightarrow> string list" where
  "split_lines [] = [[]]"
| "split_lines (c # cs) =
     (if c = CHR 0x0A then [] # split_lines cs
      else (case split_lines cs of [] \<Rightarrow> [[c]] | l # ls \<Rightarrow> (c # l) # ls))"

fun join_lines :: "string list \<Rightarrow> string" where
  "join_lines [] = []"
| "join_lines [l] = l"
| "join_lines (l # ls) = l @ [CHR 0x0A] @ join_lines ls"

text \<open>\<open>parseInt(ds, 10)\<close> on a string of decimal digits.\<close>

definition digit_value :: "char \<Rightarrow> nat" where
  "digit_value c = of_char c - of_char CHR ''0''"

definition parseInt :: "string \<Rightarrow> nat" where
  "parseInt ds = foldl (\<lambda>n c. 10 * n + digit_value c) 0 ds"



subsection \<open>\<open>JSON.parse\<close>\<close>

text \<open>
  The strict JSON grammar (ECMA-404) by recursive descent. Each function returns the
  value read and the rest of the input. The descent carries a bound on the number of
  nested calls. At most two calls follow one another without reading a character, so
  the bound \<open>2 * length s + 1\<close> given by \<open>JSON_parse\<close> is never exhausted: every larger
  bound gives the same result (\<open>parse_value_bound\<close> below). An escape \<open>\uXXXX\<close> is
  decoded to the 8-bit character of its two low hexadecimal digits.
\<close>

definition json_ws :: "char \<Rightarrow> bool" where
  "json_ws c \<longleftrightarrow> c \<in> set [CHR 0x20, CHR 0x09, CHR 0x0A, CHR 0x0D]"

definition skip_ws :: "string \<Rightarrow> string" where
  "skip_ws s = dropWhile json_ws s"

definition hex_value :: "char \<Rightarrow> nat option" where
  "hex_value c = map_of (zip ''0123456789abcdefABCDEF'' ([0..<16] @ [10..<16])) c"

definition escape_char :: "char \<Rightarrow> char option" where
  "escape_char c =
     map_of
       [(CHR 0x22, CHR 0x22), (CHR 0x5C, CHR 0x5C), (CHR ''/'', CHR ''/''),
        (CHR ''b'', CHR 0x08), (CHR ''f'', CHR 0x0C), (CHR ''n'', CHR 0x0A),
        (CHR ''r'', CHR 0x0D), (CHR ''t'', CHR 0x09)] c"

fun parse_string_chars :: "string \<Rightarrow> (string \<times> string) option" where
  "parse_string_chars [] = None"
| "parse_string_chars (c # cs) =
     (if c = CHR 0x22 then Some ([], cs)
      else if c = CHR 0x5C then
        (case cs of
           [] \<Rightarrow> None
         | e # r \<Rightarrow>
             if e = CHR ''u'' then
               (case r of
                  h1 # h2 # h3 # h4 # r' \<Rightarrow>
                    (case (hex_value h1, hex_value h2, hex_value h3, hex_value h4) of
                       (Some a, Some b, Some c', Some d) \<Rightarrow>
                         map_option (\<lambda>(s, rest). (char_of (16 * c' + d) # s, rest))
                           (parse_string_chars r')
                     | _ \<Rightarrow> None)
                | _ \<Rightarrow> None)
             else
               (case escape_char e of
                  None \<Rightarrow> None
                | Some ch \<Rightarrow> map_option (\<lambda>(s, rest). (ch # s, rest)) (parse_string_chars r)))
      else if (of_char c :: nat) < 0x20 then None
      else map_option (\<lambda>(s, rest). (c # s, rest)) (parse_string_chars cs))"

definition parse_number :: "string \<Rightarrow> (real \<times> string) option" where
  "parse_number s =
     (let neg = (s \<noteq> [] \<and> hd s = CHR ''-'');
          s1 = (if neg then tl s else s);
          ds = takeWhile js_digit s1;
          s2 = dropWhile js_digit s1;
          has_frac = (s2 \<noteq> [] \<and> hd s2 = CHR ''.'');
          fs = (if has_frac then takeWhile js_digit (tl s2) else []);
          s3 = (if has_frac then dropWhile js_digit (tl s2) else s2);
          has_exp = (s3 \<noteq> [] \<and> (hd s3 = CHR ''e'' \<or> hd s3 = CHR ''E''));
          s4 = (if has_exp then tl s3 else s3);
          exp_neg = (has_exp \<and> s4 \<noteq> [] \<and> hd s4 = CHR ''-'');
          s5 = (if has_exp \<and> s4 \<noteq> [] \<and> (hd s4 = CHR ''-'' \<or> hd s4 = CHR ''+'')
                then tl s4 else s4);
          es = (if has_exp then takeWhile js_digit s5 else []);
          s6 = (if has_exp then dropWhile js_digit s5 else s3);
          mantissa = real (parseInt ds) + real (parseInt fs) / 10 ^ length fs;
          scaled = (if exp_neg then mantissa / 10 ^ parseInt es
                    else mantissa * 10 ^ parseInt es)
      in if ds = [] \<or> (1 < length ds \<and> hd ds = CHR ''0'') \<or> (has_frac \<and> fs = [])
            \<or> (has_exp \<and> es = [])
         then None
         else Some (if neg then - scaled else scaled, s6))"

fun parse_value :: "nat \<Rightarrow> string \<Rightarrow> (json \<times> string) option"
  and parse_elements :: "nat \<Rightarrow> string \<Rightarrow> (json list \<times> string) option"
  and parse_members :: "nat \<Rightarrow> string \<Rightarrow> ((string \<times> json) list \<times> string) option" where
  "parse_value 0 s = None"
| "parse_value (Suc n) s =
     (case skip_ws s of
        [] \<Rightarrow> None
      | c # r \<Rightarrow>
          if c = CHR ''{'' then
            (case skip_ws r of
               [] \<Rightarrow> None
             | c' # r' \<Rightarrow>
                 if c' = CHR ''}'' then Some (JObj [], r')
                 else map_option (\<lambda>(ms, rest). (JObj ms, rest)) (parse_members n r))
          else if c = CHR ''['' then
            (case skip_ws r of
               [] \<Rightarrow> None
             | c' # r' \<Rightarrow>
                 if c' = CHR '']'' then Some (JArr [], r')
                 else map_option (\<lambda>(vs, rest). (JArr vs, rest)) (parse_elements n r))
          else if c = CHR 0x22 then
            map_option (\<lambda>(str, rest). (JStr str, rest)) (parse_string_chars r)
          else if take 4 (c # r) = ''true'' then Some (JBool True, drop 4 (c # r))
          else if take 5 (c # r) = ''false'' then Some (JBool False, drop 5 (c # r))
          else if take 4 (c # r) = ''null'' then Some (JNull, drop 4 (c # r))
          else map_option (\<lambda>(x, rest). (JNum x, rest)) (parse_number (c # r)))"
| "parse_elements 0 s = None"
| "parse_elements (Suc n) s =
     (case parse_value n s of
        None \<Rightarrow> None
      | Some (v, r) \<Rightarrow>
          (case skip_ws r of
             [] \<Rightarrow> None
           | c # r' \<Rightarrow>
               if c = CHR '','' then
                 map_option (\<lambda>(vs, rest). (v # vs, rest)) (parse_elements n r')
               else if c = CHR '']'' then Some ([v], r')
               else None))"
| "parse_members 0 s = None"
| "parse_members (Suc n) s =
     (case skip_ws s of
        [] \<Rightarrow> None
      | c # r \<Rightarrow>
          if c = CHR 0x22 then
            (case parse_string_chars r of
               None \<Rightarrow> None
             | Some (k, r1) \<Rightarrow>
                 (case skip_ws r1 of
                    [] \<Rightarrow> None
                  | c1 # r2 \<Rightarrow>
                      if c1 = CHR '':'' then
                        (case parse_value n r2 of
                           None \<Rightarrow> None
                         | Some (v, r3) \<Rightarrow>
                             (case skip_ws r3 of
                                [] \<Rightarrow> None
                              | c3 # r4 \<Rightarrow>
                                  if c3 = CHR '','' then
                                    map_option (\<lambda>(ms, rest). ((k, v) # ms, rest))
                                      (parse_members n r4)
                                  else if c3 = CHR ''}'' then Some ([(k, v)], r4)
                                  else None))
                      else None))
          else None)"


section \<open>The Evaluator worker\<close>

subsection \<open>Test results and the environment\<close>

record TestResult =
  score :: real
  details :: json
  error :: "string option"

text \<open>
  An R2 object offers \<open>text()\<close> (the selector \<open>r2_text\<close>), which may reject. The
  environment holds the bucket, whose \<open>get\<close> resolves to an object or to \<open>null\<close> or
  rejects, and the model endpoint \<open>AI.run\<close>. The system message sent to the model is the
  evaluation prompt followed by fixed formatting instructions, so a call is determined
  by the model name, the prompt and the source text placed in the user message. The
  endpoint resolves to a string, to an object with a \<open>response\<close> property (a string, or
  \<open>None\<close> for anything that is no string), or to some other value.
\<close>

datatype R2Object = R2Object (r2_text: "thrown + string")

datatype AiResponse =
    AiString string
  | AiObject "string option"
  | AiOther

record Env =
  R2_BUCKET_get :: "string \<Rightarrow> thrown + R2Object option"
  AI_run :: "json \<Rightarrow> json \<Rightarrow> string \<Rightarrow> thrown + AiResponse"

type_synonym TestHandler = "string \<Rightarrow> json \<Rightarrow> Env \<Rightarrow> thrown + TestResult"

subsection \<open>The linter handler (\<open>handlers/linter.ts\<close>)\<close>

text \<open>
  The score of both linter variants: 10 points per error and 2 per warning, taken from
  100, not below 0.
\<close>

definition lint_score :: "nat \<Rightarrow> nat \<Rightarrow> real" where
  "lint_score errorCount warningCount =
     (let errorPenalty = errorCount * 10;
          warningPenalty = warningCount * 2;
          totalPenalty = errorPenalty + warningPenalty
      in max 0 (100 - real totalPenalty))"

definition lint_details :: "nat \<Rightarrow> nat \<Rightarrow> json list \<Rightarrow> json" where
  "lint_details errorCount warningCount msgs =
     JObj [(''errors'', JNum (real errorCount)), (''warnings'', JNum (real warningCount)),
           (''totalIssues'', JNum (real (errorCount + warningCount))),
           (''messages'', JArr msgs)]"

text \<open>The \<open>catch\<close> block of the handler.\<close>

definition linting_failed :: "thrown \<Rightarrow> TestResult" where
  "linting_failed e =
     \<lparr>score = 0, details = lint_details 0 0 [],
      error = Some (if instanceof_Error e then thrown_message e else ''Linting failed'')\<rparr>"

text \<open>
  ESLint is a library outside the repository. Its part (building the instance with the
  rules of \<open>config.rules\<close> laid over the defaults, then \<open>lintText\<close>) is the parameter
  \<open>lintText\<close>: from the custom rules and the source text to the list of results, or a
  thrown error.
\<close>

record LintMessage =
  msg_line :: nat
  msg_column :: nat
  msg_severity :: nat
  msg_message :: string
  msg_ruleId :: "string option"

record LintResult =
  result_errorCount :: nat
  result_warningCount :: nat
  result_messages :: "LintMessage list"

definition message_json :: "LintMessage \<Rightarrow> json" where
  "message_json msg =
     JObj [(''line'', JNum (real (msg_line msg))), (''column'', JNum (real (msg_column msg))),
           (''severity'', JStr (if msg_severity msg = 2 then ''error'' else ''warning'')),
           (''message'', JStr (msg_message msg)),
           (''ruleId'', (case msg_ruleId msg of None \<Rightarrow> JNull | Some r \<Rightarrow> JStr r))]"

definition handleLinter ::
  "(json option \<Rightarrow> string \<Rightarrow> thrown + LintResult list) \<Rightarrow> TestHandler" where
  "handleLinter lintText sourceCode config env =
     (if sourceCode = [] \<or> trim sourceCode = [] then
        Inr \<lparr>score = 100, details = lint_details 0 0 [], error = None\<rparr>
      else
        (case get_prop config ''rules'' of
           Inl e \<Rightarrow> Inr (linting_failed e)
         | Inr rules \<Rightarrow>
             (case lintText rules sourceCode of
                Inl e \<Rightarrow> Inr (linting_failed e)
              | Inr results \<Rightarrow>
                  (let result = (case results of [] \<Rightarrow> None | r # rs \<Rightarrow> Some r);
                       errorCount = (case result of None \<Rightarrow> 0 | Some r \<Rightarrow> result_errorCount r);
                       warningCount =
                         (case result of None \<Rightarrow> 0 | Some r \<Rightarrow> result_warningCount r)
                   in Inr \<lparr>score = lint_score errorCount warningCount,
                           details =
                             lint_details errorCount warningCount
                               (map message_json
                                  (case result of None \<Rightarrow> [] | Some r \<Rightarrow> result_messages r)),
                           error = None\<rparr>))))"

subsection \<open>The linter variant with a built-in checker\<close>

text \<open>
  The second variant of the handler replaces ESLint by \<open>performBasicLinting\<close>, four
  checks on every line and one attempt to compile the whole text.
\<close>

definition LintIssue :: "nat \<Rightarrow> int \<Rightarrow> string \<Rightarrow> string \<Rightarrow> string \<Rightarrow> json" where
  "LintIssue line column severity msg ruleId =
     JObj [(''line'', JNum (real line)), (''column'', JNum (real_of_int column)),
           (''severity'', JStr severity), (''message'', JStr msg), (''ruleId'', JStr ruleId)]"

text \<open>
  The expression \<open>/^(let|const|var|return|break|continue)\s+.*[^;{}]\s*$/\<close>, applied to a
  trimmed line. The trimmed line ends in a character that is no space, so \<open>\s*$\<close> matches
  the empty string and the class \<open>[^;{}]\<close> the last character; \<open>\s+\<close> takes the spaces
  after the keyword, and \<open>.*\<close> what lies between, which must hold no line terminator.
\<close>

definition missing_semicolon_match :: "string \<Rightarrow> bool" where
  "missing_semicolon_match t \<longleftrightarrow>
     list_ex
       (\<lambda>kw. take (length kw) t = kw \<and>
          (let rest = drop (length kw) t;
               m = length (takeWhile js_space rest)
           in 1 \<le> m \<and> m < length rest
              \<and> \<not> list_ex line_terminator (butlast (drop m rest))
              \<and> last rest \<notin> set '';{}''))
       [''let'', ''const'', ''var'', ''return'', ''break'', ''continue'']"

text \<open>
  The expression \<open>/^\s*(let|const|var)\s+(\w+)\s*=/\<close>; the result is its second group,
  the longest run of word characters after the keyword and its spaces.
\<close>

definition unusedVarMatch :: "string \<Rightarrow> string option" where
  "unusedVarMatch line =
     (let s0 = dropWhile js_space line in
      case filter (\<lambda>kw. take (length kw) s0 = kw) [''let'', ''const'', ''var''] of
        [] \<Rightarrow> None
      | kw # kws \<Rightarrow>
          (let s1 = drop (length kw) s0;
               s2 = dropWhile js_space s1;
               varName = takeWhile js_word s2;
               s3 = dropWhile js_space (dropWhile js_word s2)
           in if s1 \<noteq> s2 \<and> varName \<noteq> [] \<and> s3 \<noteq> [] \<and> hd s3 = CHR ''=''
              then Some varName
              else None))"

definition count_char :: "char \<Rightarrow> string \<Rightarrow> nat" where
  "count_char c s = length (filter (\<lambda>x. x = c) s)"

text \<open>
  The body of \<open>lines.forEach\<close> for one line: the errors and the warnings it pushes, in
  the order of the pushes.
\<close>

definition lint_line :: "string list \<Rightarrow> nat \<Rightarrow> string \<Rightarrow> json list \<times> json list" where
  "lint_line lines index line =
     (let lineNumber = index + 1;
          semi =
            (if missing_semicolon_match (trim line) \<and> \<not> js_includes line ''//''
             then [LintIssue lineNumber (int (length line)) ''warning'' ''Missing semicolon''
                     ''semi'']
             else []);
          unused =
            (case unusedVarMatch line of
               None \<Rightarrow> []
             | Some varName \<Rightarrow>
                 (let restOfCode = join_lines (drop (index + 1) lines)
                  in if \<not> js_includes restOfCode varName
                     then [LintIssue lineNumber (indexOf line varName + 1) ''warning''
                             ([CHR 0x27] @ varName @ [CHR 0x27]
                                @ '' is assigned a value but never used'')
                             ''no-unused-vars'']
                     else []));
          func =
            (if js_includes line ''function'' \<and> \<not> js_includes line ''(''
                \<and> \<not> js_includes line ''=>''
             then [LintIssue lineNumber (indexOf line ''function'' + 1) ''error''
                     ''Invalid function declaration'' ''syntax-error'']
             else []);
          openBrackets = count_char (CHR ''{'') line;
          closeBrackets = count_char (CHR ''}'') line;
          bracket =
            (if openBrackets \<noteq> closeBrackets \<and> trim line \<noteq> [] \<and> \<not> js_includes line ''//''
             then (let diff = int openBrackets - int closeBrackets
                   in if \<bar>diff\<bar> > 0
                      then [LintIssue lineNumber 1 ''warning'' ''Potential bracket mismatch''
                              ''bracket-match'']
                      else [])
             else [])
      in (func, semi @ unused @ bracket))"

text \<open>
  \<open>new Function(sourceCode)\<close> belongs to the engine: the parameter \<open>new_Function\<close> gives what
  it throws, if anything. Only a \<open>SyntaxError\<close> is reported; any other error is dropped.
\<close>

definition performBasicLinting ::
  "(string \<Rightarrow> thrown option) \<Rightarrow> string \<Rightarrow> json list \<times> json list" where
  "performBasicLinting new_Function sourceCode =
     (let lines = split_lines sourceCode;
          found = map (\<lambda>(index, line). lint_line lines index line) (enumerate 0 lines);
          syntax =
            (case new_Function sourceCode of
               None \<Rightarrow> []
             | Some syntaxError \<Rightarrow>
                 if instanceof_SyntaxError syntaxError
                 then [LintIssue 1 1 ''error'' (thrown_message syntaxError) ''syntax-error'']
                 else [])
      in (concat (map fst found) @ syntax, concat (map snd found)))"

text \<open>
  Nothing inside the \<open>try\<close> block of this variant throws on a string, so its \<open>catch\<close>
  block has no branch here.
\<close>

definition handleLinter_basic :: "(string \<Rightarrow> thrown option) \<Rightarrow> TestHandler" where
  "handleLinter_basic new_Function sourceCode config env =
     (if sourceCode = [] \<or> trim sourceCode = [] then
        Inr \<lparr>score = 100, details = lint_details 0 0 [], error = None\<rparr>
      else
        (case performBasicLinting new_Function sourceCode of
           (errors, warnings) \<Rightarrow>
             (let errorCount = length errors;
                  warningCount = length warnings
              in Inr \<lparr>score = lint_score errorCount warningCount,
                      details = lint_details errorCount warningCount (errors @ warnings),
                      error = None\<rparr>)))"

subsection \<open>The model handler (\<open>handlers/llm.ts\<close>)\<close>










subsection \<open>Requests, responses and the scorecard\<close>

record ScorecardTest =
  type :: string
  weight :: real
  config :: json

record Scorecard =
  tests :: "ScorecardTest list"

record EvaluationRequest =
  artifact_path :: string
  scorecard :: Scorecard

text \<open>
  The response's \<open>details\<close> object is a dictionary from test type to the test's result.
  (The field is called \<open>test_details\<close> here because \<open>details\<close> already names the field of
  a test result. Test types are taken to be ordinary property names.)
\<close>

record EvaluationResponse =
  quality_score :: real
  test_details :: "string \<rightharpoonup> TestResult"

text \<open>
  A request is its method (\<open>request_method\<close>) and the outcome of \<open>request.json()\<close>, which rejects when the
  body is no JSON text. The Evaluator reads a typed \<open>EvaluationRequest\<close> from it.
\<close>

record 'a Request =
  request_method :: string
  request_json :: "thrown + 'a"

datatype ResponseBody =
    NoBody
  | TextBody string
  | ErrorBody string "string option"
  | EvaluationBody EvaluationResponse

record Response =
  status :: nat
  body :: ResponseBody

subsection \<open>The handler registry and the request pipeline\<close>

text \<open>
  The registry maps \<open>'linter'\<close> and \<open>'llm_evaluation'\<close> to the two imported handlers. The
  imports are parameters of the model, as the worker's unit tests replace them by mocks.
\<close>

definition testHandlers :: "TestHandler \<Rightarrow> TestHandler \<Rightarrow> string \<rightharpoonup> TestHandler" where
  "testHandlers linter llm_evaluation =
     map_of [(''linter'', linter), (''llm_evaluation'', llm_evaluation)]"

text \<open>One entry of \<open>testResults\<close>: the test's type and weight, and the handler's result.\<close>

record TestRun =
  run_type :: string
  run_weight :: real
  result :: TestResult

text \<open>
  The body of the callback mapped over \<open>scorecard.tests\<close>: an unregistered type and a
  rejected handler both become a result with score 0 and an error text.
\<close>

definition run_test ::
  "(string \<rightharpoonup> TestHandler) \<Rightarrow> string \<Rightarrow> Env \<Rightarrow> ScorecardTest \<Rightarrow> TestRun" where
  "run_test handlers sourceCode env test =
     (case handlers (type test) of
        None \<Rightarrow>
          \<lparr>run_type = type test, run_weight = weight test,
           result = \<lparr>score = 0, details = JObj [],
                     error = Some (''Unknown test type: '' @ type test)\<rparr>\<rparr>
      | Some handler \<Rightarrow>
          (case handler sourceCode (config test) env of
             Inr r \<Rightarrow> \<lparr>run_type = type test, run_weight = weight test, result = r\<rparr>
           | Inl e \<Rightarrow>
               \<lparr>run_type = type test, run_weight = weight test,
                result = \<lparr>score = 0, details = JObj [],
                          error = Some (if instanceof_Error e then thrown_message e
                                        else ''Unknown error'')\<rparr>\<rparr>))"

text \<open>
  \<open>Promise.all\<close> collects the per-test results in the order of the scorecard, whatever
  the order in which the handlers settle.
\<close>

definition testResults ::
  "(string \<rightharpoonup> TestHandler) \<Rightarrow> string \<Rightarrow> Env \<Rightarrow> Scorecard \<Rightarrow> TestRun list" where
  "testResults handlers sourceCode env sc = map (run_test handlers sourceCode env) (tests sc)"

text \<open>
  The loop over \<open>testResults\<close>, with its three accumulators \<open>totalWeightedScore\<close>,
  \<open>totalWeight\<close> and \<open>details\<close>.
\<close>

fun combine ::
  "TestRun list \<Rightarrow> real \<Rightarrow> real \<Rightarrow> (string \<rightharpoonup> TestResult)
     \<Rightarrow> real \<times> real \<times> (string \<rightharpoonup> TestResult)" where
  "combine [] totalWeightedScore totalWeight dets = (totalWeightedScore, totalWeight, dets)"
| "combine (r # rs) totalWeightedScore totalWeight dets =
     combine rs (totalWeightedScore + score (result r) * run_weight r)
       (totalWeight + run_weight r) (dets(run_type r \<mapsto> result r))"

definition evaluate :: "TestRun list \<Rightarrow> EvaluationResponse" where
  "evaluate rs =
     (case combine rs 0 0 Map.empty of
        (totalWeightedScore, totalWeight, dets) \<Rightarrow>
          \<lparr>quality_score = (if totalWeight > 0 then totalWeightedScore / totalWeight else 0),
           test_details = dets\<rparr>)"

text \<open>The outer \<open>catch\<close> block of \<open>fetch\<close>.\<close>

definition evaluation_failed :: "thrown \<Rightarrow> Response" where
  "evaluation_failed e =
     \<lparr>status = 500,
      body = ErrorBody ''Evaluation failed for artifact''
               (Some (if instanceof_Error e then thrown_message e else ''Unknown error''))\<rparr>"

definition evaluator_fetch ::
  "(string \<rightharpoonup> TestHandler) \<Rightarrow> EvaluationRequest Request \<Rightarrow> Env \<Rightarrow> Response" where
  "evaluator_fetch handlers request env =
     (if request_method request \<noteq> ''POST''
      then \<lparr>status = 405, body = TextBody ''Method not allowed''\<rparr>
      else
        (case request_json request of
           Inl e \<Rightarrow> evaluation_failed e
         | Inr req \<Rightarrow>
             (case R2_BUCKET_get env (artifact_path req) of
                Inl e \<Rightarrow> evaluation_failed e
              | Inr None \<Rightarrow>
                  \<lparr>status = 404,
                   body = ErrorBody (''Artifact not found: '' @ artifact_path req) None\<rparr>
              | Inr (Some r2Object) \<Rightarrow>
                  (case r2_text r2Object of
                     Inl e \<Rightarrow> evaluation_failed e
                   | Inr sourceCode \<Rightarrow>
                       \<lparr>status = 200,
                        body = EvaluationBody
                                 (evaluate (testResults handlers sourceCode env (scorecard req)))\<rparr>))))"

section \<open>The Generator worker\<close>

subsection \<open>Data contracts and the environment\<close>

record CostMetrics =
  prompt_tokens :: nat
  completion_tokens :: nat

datatype GenerationStatus = SUCCESS | FAILED

text \<open>
  The report posted to the Orchestrator. The payload of a request is any JSON value, so
  its fields are JSON values or \<open>undefined\<close>; \<open>r2_path\<close> is \<open>None\<close> for \<open>null\<close>. (The
  field \<open>status\<close> is called \<open>report_status\<close> here, as \<open>status\<close> names the field of a
  response.)
\<close>

record ReportGenerationRequest =
  artifact_id :: "json option"
  r2_path :: "json option"
  report_status :: GenerationStatus
  cost_metrics :: CostMetrics

text \<open>
  What the model endpoint resolves to: a string, an object with its \<open>response\<close> text and
  its \<open>usage\<close> (each present or not), or a value that is neither.
\<close>

record AiUsage =
  usage_prompt_tokens :: "nat option"
  usage_completion_tokens :: "nat option"

datatype GeneratorAiResponse =
    GenString string
  | GenObject "string option" "AiUsage option"
  | GenOther

text \<open>
  An Orchestrator stub is its \<open>fetch\<close>: from the URL and the report to a resolved or
  rejected promise. The bucket's \<open>put\<close> takes the path, the content and the content type.
\<close>

type_synonym Stub = "string \<Rightarrow> ReportGenerationRequest \<Rightarrow> thrown + unit"

record GeneratorEnv =
  G_AI_run :: "string \<Rightarrow> json option \<Rightarrow> thrown + GeneratorAiResponse"
  R2_BUCKET_put :: "json option \<Rightarrow> string \<Rightarrow> string \<Rightarrow> thrown + unit"
  ORCHESTRATOR_idFromString :: "json option \<Rightarrow> thrown + string"
  ORCHESTRATOR_get :: "string \<Rightarrow> thrown + Stub"

text \<open>
  The deferred job is observed through the calls it makes to the bucket and to the
  Orchestrator, in order and whether or not they succeed, and through the way its
  promise settles.
\<close>

datatype Effect =
    R2Put "json option" string string
  | OrchestratorFetch string ReportGenerationRequest

record Generation =
  effects :: "Effect list"
  settled :: "thrown + unit"

definition report_url :: string where
  "report_url = ''https://orchestrator.internal/report/generation''"

subsection \<open>\<open>handleGeneration\<close>\<close>

text \<open>
  The \<open>catch\<close> block: fetch the stub again and post the failure report; whatever is
  thrown in there is logged and dropped. The block reads the identifiers destructured
  from the payload; the argument \<open>made\<close> holds the calls made before the failure.
\<close>

definition report_failure :: "json \<Rightarrow> GeneratorEnv \<Rightarrow> Effect list \<Rightarrow> Generation" where
  "report_failure payload env made =
     (let orchestrator_id = json_member payload ''orchestrator_id'';
          artifact_id = json_member payload ''artifact_id''
      in case ORCHESTRATOR_idFromString env orchestrator_id of
           Inl callbackErr \<Rightarrow> \<lparr>effects = made, settled = Inr ()\<rparr>
         | Inr orchestratorId \<Rightarrow>
             (case ORCHESTRATOR_get env orchestratorId of
                Inl callbackErr \<Rightarrow> \<lparr>effects = made, settled = Inr ()\<rparr>
              | Inr orchestrator \<Rightarrow>
                  (let errorPayload =
                         \<lparr>artifact_id = artifact_id, r2_path = None, report_status = FAILED,
                          cost_metrics = \<lparr>prompt_tokens = 0, completion_tokens = 0\<rparr>\<rparr>
                   in case orchestrator report_url errorPayload of
                        Inl callbackErr \<Rightarrow>
                          \<lparr>effects = made @ [OrchestratorFetch report_url errorPayload],
                           settled = Inr ()\<rparr>
                      | Inr ok \<Rightarrow>
                          \<lparr>effects = made @ [OrchestratorFetch report_url errorPayload],
                           settled = Inr ()\<rparr>)))"

text \<open>
  The content and the cost metrics taken from the model's answer; \<open>None\<close> where the code
  throws \<open>Unexpected AI response format\<close>.
\<close>

definition extract_content :: "GeneratorAiResponse \<Rightarrow> (string \<times> CostMetrics) option" where
  "extract_content aiResponse =
     (case aiResponse of
        GenString text \<Rightarrow> Some (text, \<lparr>prompt_tokens = 0, completion_tokens = 0\<rparr>)
      | GenObject response usage \<Rightarrow>
          Some ((case response of
                   None \<Rightarrow> ''[object Object]''
                 | Some text \<Rightarrow> if text \<noteq> [] then text else ''[object Object]''),
                (case usage of
                   None \<Rightarrow> \<lparr>prompt_tokens = 0, completion_tokens = 0\<rparr>
                 | Some u \<Rightarrow>
                     \<lparr>prompt_tokens = (case usage_prompt_tokens u of None \<Rightarrow> 0 | Some n \<Rightarrow> n),
                      completion_tokens =
                        (case usage_completion_tokens u of None \<Rightarrow> 0 | Some n \<Rightarrow> n)\<rparr>))
      | GenOther \<Rightarrow> None)"

text \<open>
  The \<open>try\<close> block, step by step: the stub, the log line that reads \<open>meta_prompt.length\<close>
  (a \<open>TypeError\<close> on \<open>undefined\<close> and \<open>null\<close>), the model call, the write to the bucket
  and the success report. A failure of any step enters the \<open>catch\<close> block.
\<close>

definition handleGeneration :: "json \<Rightarrow> GeneratorEnv \<Rightarrow> Generation" where
  "handleGeneration payload env =
     (let orchestrator_id = json_member payload ''orchestrator_id'';
          artifact_id = json_member payload ''artifact_id'';
          meta_prompt = json_member payload ''meta_prompt'';
          output_r2_path = json_member payload ''output_r2_path''
      in case ORCHESTRATOR_idFromString env orchestrator_id of
           Inl err \<Rightarrow> report_failure payload env []
         | Inr orchestratorId \<Rightarrow>
             (case ORCHESTRATOR_get env orchestratorId of
                Inl err \<Rightarrow> report_failure payload env []
              | Inr orchestrator \<Rightarrow>
                  if meta_prompt = None \<or> meta_prompt = Some JNull
                  then report_failure payload env []
                  else
                    (case G_AI_run env ''@cf/meta/llama-3-8b-instruct'' meta_prompt of
                       Inl err \<Rightarrow> report_failure payload env []
                     | Inr aiResponse \<Rightarrow>
                         (case extract_content aiResponse of
                            None \<Rightarrow> report_failure payload env []
                          | Some (generatedContent, costMetrics) \<Rightarrow>
                              (case R2_BUCKET_put env output_r2_path generatedContent ''text/html'' of
                                 Inl err \<Rightarrow>
                                   report_failure payload env
                                     [R2Put output_r2_path generatedContent ''text/html'']
                               | Inr written \<Rightarrow>
                                   (let reportPayload =
                                          \<lparr>artifact_id = artifact_id, r2_path = output_r2_path,
                                           report_status = SUCCESS, cost_metrics = costMetrics\<rparr>
                                    in case orchestrator report_url reportPayload of
                                         Inl err \<Rightarrow>
                                           report_failure payload env
                                             [R2Put output_r2_path generatedContent ''text/html'',
                                              OrchestratorFetch report_url reportPayload]
                                       | Inr ok \<Rightarrow>
                                           \<lparr>effects =
                                              [R2Put output_r2_path generatedContent ''text/html'',
                                               OrchestratorFetch report_url reportPayload],
                                            settled = Inr ()\<rparr>))))))"

subsection \<open>\<open>fetch\<close>\<close>

text \<open>
  The response, and the job handed to \<open>ctx.waitUntil\<close> if there is one. The four tests
  \<open>!payload.field\<close> run from left to right; the first read throws on a \<open>null\<close> payload,
  which the \<open>catch\<close> block answers like a body that is no JSON.
\<close>

definition generator_fetch :: "json Request \<Rightarrow> GeneratorEnv \<Rightarrow> Response \<times> Generation option" where
  "generator_fetch request env =
     (if request_method request \<noteq> ''POST''
      then (\<lparr>status = 405, body = TextBody ''Method not allowed''\<rparr>, None)
      else
        (case request_json request of
           Inl e \<Rightarrow> (\<lparr>status = 400, body = TextBody ''Invalid request body''\<rparr>, None)
         | Inr payload \<Rightarrow>
             (case get_prop payload ''orchestrator_id'' of
                Inl e \<Rightarrow> (\<lparr>status = 400, body = TextBody ''Invalid request body''\<rparr>, None)
              | Inr orchestrator_id \<Rightarrow>
                  if \<not> truthy orchestrator_id \<or> \<not> truthy (json_member payload ''artifact_id'')
                     \<or> \<not> truthy (json_member payload ''meta_prompt'')
                     \<or> \<not> truthy (json_member payload ''output_r2_path'')
                  then (\<lparr>status = 400, body = TextBody ''Missing required fields''\<rparr>, None)
                  else (\<lparr>status = 202, body = NoBody\<rparr>, Some (handleGeneration payload env)))))"

section \<open>Notions for the statements, and scenarios\<close>

text \<open>
  Concrete handlers, environments and requests on which the properties below are
  exercised: a handler that resolves to a fixed result whatever it is given (as the mocks
  of the unit tests do), one that always rejects, one whose score is the number given as
  its configuration, a bucket that holds one artifact, and a POST carrying a scorecard.
  The settled outcome of the handler call made for a test is \<open>handler_outcome\<close> (\<open>None\<close>
  when no handler is registered for the test's type).
\<close>

definition mock_handler :: "TestResult \<Rightarrow> TestHandler" where
  "mock_handler r = (\<lambda>sourceCode cfg env. Inr r)"

definition failing_handler :: "thrown \<Rightarrow> TestHandler" where
  "failing_handler e = (\<lambda>sourceCode cfg env. Inl e)"

definition scored :: "real \<Rightarrow> TestResult" where
  "scored s = \<lparr>score = s, details = JObj [], error = None\<rparr>"

definition bucket_env :: "string \<Rightarrow> string \<Rightarrow> Env" where
  "bucket_env path content =
     \<lparr>R2_BUCKET_get = (\<lambda>p. Inr (if p = path then Some (R2Object (Inr content)) else None)),
      AI_run = (\<lambda>model prompt sourceCode. Inl (JsError ''model unavailable''))\<rparr>"

definition post :: "string \<Rightarrow> ScorecardTest list \<Rightarrow> EvaluationRequest Request" where
  "post path ts =
     \<lparr>request_method = ''POST'',
      request_json = Inr \<lparr>artifact_path = path, scorecard = \<lparr>tests = ts\<rparr>\<rparr>\<rparr>"

definition handler_outcome ::
  "(string \<rightharpoonup> TestHandler) \<Rightarrow> string \<Rightarrow> Env \<Rightarrow> ScorecardTest \<Rightarrow> (thrown + TestResult) option" where
  "handler_outcome handlers sourceCode env test =
     map_option (\<lambda>handler. handler sourceCode (config test) env) (handlers (type test))"


text \<open>
  For the Generator: the four fields a request must carry, the two reports \<open>errorPayload\<close>
  and \<open>reportPayload\<close> that \<open>handleGeneration\<close> builds for a payload, a stub whose \<open>fetch\<close>
  always rejects, an environment whose model gives a fixed answer, whose bucket accepts
  every write and whose namespace hands out the given stub, a well-formed payload with
  the given meta-prompt, and a POST carrying a payload.
\<close>

definition required_fields :: "string list" where
  "required_fields = [''orchestrator_id'', ''artifact_id'', ''meta_prompt'', ''output_r2_path'']"

definition unreachable_stub :: Stub where
  "unreachable_stub = (\<lambda>url report. Inl (JsError ''Orchestrator unreachable''))"

definition generator_env :: "(thrown + GeneratorAiResponse) \<Rightarrow> Stub \<Rightarrow> GeneratorEnv" where
  "generator_env answer stub =
     \<lparr>G_AI_run = (\<lambda>model prompt. answer),
      R2_BUCKET_put = (\<lambda>path content contentType. Inr ()),
      ORCHESTRATOR_idFromString = (\<lambda>v. case v of Some (JStr s) \<Rightarrow> Inr s
                                          | _ \<Rightarrow> Inl (JsTypeError ''Invalid Durable Object ID'')),
      ORCHESTRATOR_get = (\<lambda>objectId. Inr stub)\<rparr>"

definition generate_payload :: "string \<Rightarrow> json" where
  "generate_payload meta_prompt =
     JObj [(''orchestrator_id'', JStr ''orchestrator-1''), (''artifact_id'', JStr ''w1-a1''),
           (''meta_prompt'', JStr meta_prompt),
           (''output_r2_path'', JStr ''artifacts/wave-1/w1-a1.html'')]"

definition failure_report :: "json \<Rightarrow> ReportGenerationRequest" where
  "failure_report payload =
     \<lparr>artifact_id = json_member payload ''artifact_id'', r2_path = None, report_status = FAILED,
      cost_metrics = \<lparr>prompt_tokens = 0, completion_tokens = 0\<rparr>\<rparr>"

definition success_report :: "json \<Rightarrow> CostMetrics \<Rightarrow> ReportGenerationRequest" where
  "success_report payload costMetrics =
     \<lparr>artifact_id = json_member payload ''artifact_id'',
      r2_path = json_member payload ''output_r2_path'', report_status = SUCCESS,
      cost_metrics = costMetrics\<rparr>"

definition post_json :: "json \<Rightarrow> json Request" where
  "post_json payload = \<lparr>request_method = ''POST'', request_json = Inr payload\<rparr>"

text \<open>
  For the handlers: an environment whose model endpoint resolves to a fixed answer, an
  ESLint that reports fixed counts and one that throws, and four replies of the model: a
  JSON text cut short by a trailing comma, a sentence that names a score, a sentence that
  names none, and a JSON text whose score exceeds 100. \<open>quoted\<close> wraps a text in double
  quotes.
\<close>

definition reply_env :: "AiResponse \<Rightarrow> Env" where
  "reply_env response =
     \<lparr>R2_BUCKET_get = (\<lambda>path. Inr None),
      AI_run = (\<lambda>model prompt sourceCode. Inr response)\<rparr>"

definition fixed_lint :: "nat \<Rightarrow> nat \<Rightarrow> json option \<Rightarrow> string \<Rightarrow> thrown + LintResult list" where
  "fixed_lint errorCount warningCount =
     (\<lambda>rules sourceCode.
        Inr [\<lparr>result_errorCount = errorCount, result_warningCount = warningCount,
              result_messages = []\<rparr>])"

definition failing_lint :: "thrown \<Rightarrow> json option \<Rightarrow> string \<Rightarrow> thrown + LintResult list" where
  "failing_lint e = (\<lambda>rules sourceCode. Inl e)"








section \<open>Properties of the JSON parser\<close>

text \<open>
  Every successful parse consumes input, and the result of a parse does not depend on
  the bound on nested calls once the bound exceeds twice the length of the input.
\<close>

lemma skip_ws_length: "length (skip_ws s) \<le> length s"
  by (simp add: skip_ws_def length_dropWhile_le)

lemma skip_ws_Cons: "skip_ws s = c # r \<Longrightarrow> length r < length s"
  using skip_ws_length [of s] by simp

lemma parse_string_chars_shorter:
  "parse_string_chars s = Some (t, r) \<Longrightarrow> length r < length s"
proof (induction s arbitrary: t r rule: parse_string_chars.induct)
  case 1
  then show ?case by simp
next
  case (2 c cs)
  then show ?case
    by (fastforce split: if_splits list.splits option.splits prod.splits)
qed

lemma length_tl_le: "length (tl xs) \<le> length xs"
  by simp

lemma dropWhile_shorter: "takeWhile P xs \<noteq> [] \<Longrightarrow> length (dropWhile P xs) < length xs"
  by (cases xs) (auto simp: length_dropWhile_le le_imp_less_Suc split: if_splits)

lemma parse_number_shorter:
  assumes "parse_number s = Some (x, r)"
  shows "length r < length s"
proof -
  define s1 where "s1 = (if s \<noteq> [] \<and> hd s = CHR ''-'' then tl s else s)"
  define s2 where "s2 = dropWhile js_digit s1"
  define s3 where "s3 = (if s2 \<noteq> [] \<and> hd s2 = CHR ''.'' then dropWhile js_digit (tl s2) else s2)"
  define has_exp where "has_exp = (s3 \<noteq> [] \<and> (hd s3 = CHR ''e'' \<or> hd s3 = CHR ''E''))"
  define s4 where "s4 = (if has_exp then tl s3 else s3)"
  define s5 where "s5 = (if has_exp \<and> s4 \<noteq> [] \<and> (hd s4 = CHR ''-'' \<or> hd s4 = CHR ''+'')
                then tl s4 else s4)"
  define s6 where "s6 = (if has_exp then dropWhile js_digit s5 else s3)"
  have "\<exists>bad y. parse_number s =
      (if takeWhile js_digit s1 = [] \<or> bad then None else Some (y, s6))"
    unfolding parse_number_def Let_def s1_def s2_def s3_def has_exp_def s4_def s5_def s6_def
    by (intro exI) (rule refl)
  then obtain bad y where
    "parse_number s = (if takeWhile js_digit s1 = [] \<or> bad then None else Some (y, s6))"
    by blast
  with assms have r: "r = s6" and ds: "takeWhile js_digit s1 \<noteq> []"
    by (simp_all split: if_splits)
  have "length s1 \<le> length s"
    by (simp add: s1_def)
  moreover have "length s2 < length s1"
    unfolding s2_def using ds by (rule dropWhile_shorter)
  moreover have "length s3 \<le> length s2"
    unfolding s3_def
    by (simp add: le_trans [OF length_dropWhile_le length_tl_le])
  moreover have "length s4 \<le> length s3"
    by (simp add: s4_def)
  moreover have "length s5 \<le> length s4"
    by (simp add: s5_def)
  moreover have "length s6 \<le> length s3"
  proof (cases has_exp)
    case True
    have "length (dropWhile js_digit s5) \<le> length s5"
      by (rule length_dropWhile_le)
    with True \<open>length s5 \<le> length s4\<close> \<open>length s4 \<le> length s3\<close> show ?thesis
      by (simp add: s6_def)
  next
    case False
    then show ?thesis
      by (simp add: s6_def)
  qed
  ultimately show ?thesis
    using r by simp
qed


lemma parse_shorter:
  "(parse_value n s = Some (v, r) \<longrightarrow> length r < length s)
   \<and> (parse_elements n s = Some (vs, r) \<longrightarrow> length r < length s)
   \<and> (parse_members n s = Some (ms, r) \<longrightarrow> length r < length s)"
proof (induction n arbitrary: s v vs ms r)
  case 0
  show ?case by simp
next
  case (Suc n)
  have v: "length r' < length s'" if "parse_value n s' = Some (v', r')" for s' v' r'
    using Suc [of s' v' r'] that by simp
  have e: "length r' < length s'" if "parse_elements n s' = Some (vs', r')" for s' vs' r'
    using Suc [of s' _ r' vs'] that by simp
  have m: "length r' < length s'" if "parse_members n s' = Some (ms', r')" for s' ms' r'
    using Suc [of s' _ r' _ ms'] that by simp
  show ?case
  proof (intro conjI impI)
    assume a: "parse_value (Suc n) s = Some (v, r)"
    then obtain c t where st: "skip_ws s = c # t"
      by (cases "skip_ws s") simp_all
    have t: "length t < length s"
      using st by (rule skip_ws_Cons)
    have le: "length (c # t) \<le> length s"
      using skip_ws_length [of s] st by simp
    consider (obj) "c = CHR ''{''" | (arr) "c \<noteq> CHR ''{''" "c = CHR ''[''"
      | (str) "c \<noteq> CHR ''{''" "c \<noteq> CHR ''[''" "c = CHR 0x22"
      | (other) "c \<noteq> CHR ''{''" "c \<noteq> CHR ''[''" "c \<noteq> CHR 0x22"
      by blast
    then show "length r < length s"
    proof cases
      case obj
      with a st have "(\<exists>c' r'. skip_ws t = c' # r' \<and> c' = CHR ''}'' \<and> r = r')
          \<or> (\<exists>ms'. parse_members n t = Some (ms', r))"
        by (auto split: list.splits if_splits)
      then show ?thesis
        using t by (auto dest!: skip_ws_Cons m)
    next
      case arr
      with a st have "(\<exists>c' r'. skip_ws t = c' # r' \<and> c' = CHR '']'' \<and> r = r')
          \<or> (\<exists>vs'. parse_elements n t = Some (vs', r))"
        by (auto split: list.splits if_splits)
      then show ?thesis
        using t by (auto dest!: skip_ws_Cons e)
    next
      case str
      with a st have "\<exists>str. parse_string_chars t = Some (str, r)"
        by auto
      then show ?thesis
        using t by (auto dest!: parse_string_chars_shorter)
    next
      case other
      with a st have "r = drop 4 (c # t) \<or> r = drop 5 (c # t)
          \<or> (\<exists>x. parse_number (c # t) = Some (x, r))"
        by (auto split: if_splits)
      then show ?thesis
        using le by (auto dest!: parse_number_shorter)
    qed
  next
    assume a: "parse_elements (Suc n) s = Some (vs, r)"
    then obtain v' r1 where pv: "parse_value n s = Some (v', r1)"
      by (cases "parse_value n s") auto
    with a obtain c r2 where sk: "skip_ws r1 = c # r2"
      by (cases "skip_ws r1") auto
    from a pv sk have "r = r2 \<or> (\<exists>vs'. parse_elements n r2 = Some (vs', r))"
      by (auto split: if_splits)
    then show "length r < length s"
      using v [OF pv] skip_ws_Cons [OF sk] by (auto dest!: e)
  next
    assume a: "parse_members (Suc n) s = Some (ms, r)"
    then obtain c t where st: "skip_ws s = c # t"
      by (cases "skip_ws s") simp_all
    with a have q: "c = CHR 0x22"
      by (auto split: if_splits)
    with a st obtain k r1 where ps: "parse_string_chars t = Some (k, r1)"
      by (cases "parse_string_chars t") auto
    with a st q obtain c1 r2 where s1: "skip_ws r1 = c1 # r2"
      by (cases "skip_ws r1") auto
    with a st q ps have col: "c1 = CHR '':''"
      by (auto split: if_splits)
    with a st q ps s1 obtain v' r3 where pv: "parse_value n r2 = Some (v', r3)"
      by (cases "parse_value n r2") auto
    with a st q ps s1 col obtain c3 r4 where s3: "skip_ws r3 = c3 # r4"
      by (cases "skip_ws r3") auto
    from a st q ps s1 col pv s3 have "r = r4 \<or> (\<exists>ms'. parse_members n r4 = Some (ms', r))"
      by (auto split: if_splits)
    then show "length r < length s"
      using skip_ws_Cons [OF st] parse_string_chars_shorter [OF ps] skip_ws_Cons [OF s1]
        v [OF pv] skip_ws_Cons [OF s3]
      by (auto dest!: m)
  qed
qed


lemma parse_value_shorter: "parse_value n s = Some (v, r) \<Longrightarrow> length r < length s"
  using parse_shorter [of n s v r] by simp

lemma parse_fuel:
  "(2 * length s < n \<and> 2 * length s < m \<longrightarrow> parse_value n s = parse_value m s)
   \<and> (2 * length s + 1 < n \<and> 2 * length s + 1 < m \<longrightarrow>
        parse_elements n s = parse_elements m s)
   \<and> (2 * length s + 1 < n \<and> 2 * length s + 1 < m \<longrightarrow>
        parse_members n s = parse_members m s)"
proof (induction n arbitrary: m s)
  case 0
  show ?case by simp
next
  case (Suc n)
  have v: "parse_value n s' = parse_value j s'"
    if "2 * length s' < n" "2 * length s' < j" for s' j
    using Suc [of s' j] that by simp
  have e: "parse_elements n s' = parse_elements j s'"
    if "2 * length s' + 1 < n" "2 * length s' + 1 < j" for s' j
    using Suc [of s' j] that by simp
  have ms: "parse_members n s' = parse_members j s'"
    if "2 * length s' + 1 < n" "2 * length s' + 1 < j" for s' j
    using Suc [of s' j] that by simp
  show ?case
  proof (intro conjI impI)
    assume a: "2 * length s < Suc n \<and> 2 * length s < m"
    then obtain j where j: "m = Suc j"
      by (cases m) auto
    show "parse_value (Suc n) s = parse_value m s"
    proof (cases "skip_ws s")
      case Nil
      then show ?thesis
        by (simp only: j parse_value.simps list.case)
    next
      case (Cons c t)
      then have "length t < length s"
        by (rule skip_ws_Cons)
      with a j have b: "2 * length t + 1 < n" "2 * length t + 1 < j"
        by simp_all
      have eqs: "parse_elements n t = parse_elements j t"
        "parse_members n t = parse_members j t"
        by (rule e [OF b], rule ms [OF b])
      show ?thesis
        by (simp only: j parse_value.simps Cons list.case eqs)
    qed
  next
    assume a: "2 * length s + 1 < Suc n \<and> 2 * length s + 1 < m"
    then obtain j where j: "m = Suc j"
      by (cases m) auto
    from a j have pv: "parse_value n s = parse_value j s"
      by (intro v) simp_all
    show "parse_elements (Suc n) s = parse_elements m s"
    proof (cases "parse_value j s")
      case None
      show ?thesis
        by (simp only: j parse_elements.simps pv None option.case)
    next
      case (Some p)
      obtain v' r1 where p: "p = (v', r1)"
        by (cases p)
      have r1: "length r1 < length s"
        using Some p by (intro parse_value_shorter [of j s v' r1]) simp
      show ?thesis
      proof (cases "skip_ws r1")
        case Nil
        show ?thesis
          by (simp only: j parse_elements.simps pv Some p option.case prod.case Nil list.case)
      next
        case (Cons c r2)
        then have "length r2 < length r1"
          by (rule skip_ws_Cons)
        with r1 a j have "2 * length r2 + 1 < n" "2 * length r2 + 1 < j"
          by simp_all
        then have eq: "parse_elements n r2 = parse_elements j r2"
          by (rule e)
        show ?thesis
          by (simp only: j parse_elements.simps pv Some p option.case prod.case Cons list.case eq)
      qed
    qed
  next
    assume a: "2 * length s + 1 < Suc n \<and> 2 * length s + 1 < m"
    then obtain j where j: "m = Suc j"
      by (cases m) auto
    show "parse_members (Suc n) s = parse_members m s"
    proof (cases "skip_ws s")
      case Nil
      show ?thesis
        by (simp only: j parse_members.simps Nil list.case)
    next
      case (Cons c t)
      then have t: "length t < length s"
        by (rule skip_ws_Cons)
      show ?thesis
      proof (cases "parse_string_chars t")
        case None
        show ?thesis
          by (simp only: j parse_members.simps Cons list.case None option.case)
      next
        case (Some p)
        obtain k r1 where p: "p = (k, r1)"
          by (cases p)
        have r1: "length r1 < length t"
          using Some p by (intro parse_string_chars_shorter [of t k r1]) simp
        show ?thesis
        proof (cases "skip_ws r1")
          case Nil
          show ?thesis
            by (simp only: j parse_members.simps Cons list.case Some p option.case prod.case Nil)
        next
          case c1: (Cons c1 r2)
          then have r2: "length r2 < length r1"
            by (rule skip_ws_Cons)
          with r1 t a j have "2 * length r2 < n" "2 * length r2 < j"
            by simp_all
          then have pv: "parse_value n r2 = parse_value j r2"
            by (rule v)
          show ?thesis
          proof (cases "parse_value j r2")
            case None
            show ?thesis
              by (simp only: j parse_members.simps Cons list.case Some p option.case prod.case
                  c1 pv None)
          next
            case sv: (Some q)
            obtain v' r3 where q: "q = (v', r3)"
              by (cases q)
            have r3: "length r3 < length r2"
              using sv q by (intro parse_value_shorter [of j r2 v' r3]) simp
            show ?thesis
            proof (cases "skip_ws r3")
              case Nil
              show ?thesis
                by (simp only: j parse_members.simps Cons list.case Some p option.case
                    prod.case c1 pv sv q Nil)
            next
              case c3: (Cons c3 r4)
              then have "length r4 < length r3"
                by (rule skip_ws_Cons)
              with r3 r2 r1 t a j have "2 * length r4 + 1 < n" "2 * length r4 + 1 < j"
                by simp_all
              then have eq: "parse_members n r4 = parse_members j r4"
                by (rule ms)
              show ?thesis
                by (simp only: j parse_members.simps Cons list.case Some p option.case
                    prod.case c1 pv sv q c3 eq)
            qed
          qed
        qed
      qed
    qed
  qed
qed

lemma parse_value_bound:
  "2 * length s < n \<Longrightarrow> parse_value n s = parse_value (Suc (2 * length s)) s"
  using parse_fuel [of s n "Suc (2 * length s)"] by simp


section \<open>Properties of the Evaluator\<close>

subsection \<open>The combining loop\<close>

lemma combine_weighted:
  "fst (combine rs s w d) = s + sum_list (map (\<lambda>r. score (result r) * run_weight r) rs)"
  by (induction rs arbitrary: s w d) (simp_all add: add.assoc)

lemma combine_weight:
  "fst (snd (combine rs s w d)) = w + sum_list (map run_weight rs)"
  by (induction rs arbitrary: s w d) (simp_all add: add.assoc)

lemma combine_details:
  "snd (snd (combine rs s w d)) ty =
     (case filter (\<lambda>r. run_type r = ty) rs of
        [] \<Rightarrow> d ty
      | f # fs \<Rightarrow> Some (result (last (f # fs))))"
proof (induction rs arbitrary: s w d)
  case Nil
  show ?case by simp
next
  case (Cons r rs)
  let ?d = "d(run_type r \<mapsto> result r)"
  have ih: "snd (snd (combine (r # rs) s w d)) ty =
      (case filter (\<lambda>r. run_type r = ty) rs of
         [] \<Rightarrow> ?d ty
       | f # fs \<Rightarrow> Some (result (last (f # fs))))"
    unfolding combine.simps by (rule Cons.IH)
  show ?case
  proof (cases "run_type r = ty")
    case True
    then show ?thesis
      unfolding ih by (cases "filter (\<lambda>r. run_type r = ty) rs") simp_all
  next
    case False
    then show ?thesis
      unfolding ih by (cases "filter (\<lambda>r. run_type r = ty) rs") simp_all
  qed
qed

lemma quality_score_evaluate:
  "quality_score (evaluate rs) =
     (if 0 < sum_list (map run_weight rs)
      then sum_list (map (\<lambda>r. score (result r) * run_weight r) rs) / sum_list (map run_weight rs)
      else 0)"
proof -
  obtain s w d where c: "combine rs 0 0 Map.empty = (s, w, d)"
    by (cases "combine rs 0 0 Map.empty") auto
  have "s = sum_list (map (\<lambda>r. score (result r) * run_weight r) rs)"
    using combine_weighted [of rs 0 0 Map.empty] c by simp
  moreover have "w = sum_list (map run_weight rs)"
    using combine_weight [of rs 0 0 Map.empty] c by simp
  ultimately show ?thesis
    by (simp add: evaluate_def c)
qed

lemma test_details_evaluate:
  "test_details (evaluate rs) ty =
     (case filter (\<lambda>r. run_type r = ty) rs of
        [] \<Rightarrow> None
      | f # fs \<Rightarrow> Some (result (last (f # fs))))"
proof -
  obtain s w d where c: "combine rs 0 0 Map.empty = (s, w, d)"
    by (cases "combine rs 0 0 Map.empty") auto
  show ?thesis
    using combine_details [of rs 0 0 Map.empty ty] c
    by (simp add: evaluate_def)
qed

lemma run_test_weight: "run_weight (run_test handlers sourceCode env t) = weight t"
  by (simp add: run_test_def split: option.split sum.split)

lemma run_test_type: "run_type (run_test handlers sourceCode env t) = type t"
  by (simp add: run_test_def split: option.split sum.split)

lemma run_test_outcome:
  assumes "handler_outcome h1 sourceCode env1 t = handler_outcome h2 sourceCode env2 t"
  shows "run_test h1 sourceCode env1 t = run_test h2 sourceCode env2 t"
  using assms
  by (cases "h1 (type t)"; cases "h2 (type t)") (simp_all add: handler_outcome_def run_test_def)

lemma evaluator_fetch_ok:
  assumes "request_method request = ''POST''"
    and "request_json request = Inr req"
    and "R2_BUCKET_get env (artifact_path req) = Inr (Some r2Object)"
    and "r2_text r2Object = Inr sourceCode"
  shows "evaluator_fetch handlers request env =
           \<lparr>status = 200,
            body = EvaluationBody (evaluate (testResults handlers sourceCode env (scorecard req)))\<rparr>"
  using assms by (simp add: evaluator_fetch_def)


lemma testResults_weights:
  "map run_weight (testResults handlers sourceCode env sc) = map weight (tests sc)"
  by (simp add: testResults_def run_test_weight comp_def)

subsection \<open>Weighted scoring\<close>




subsection \<open>Per-test results\<close>

lemma testResults_nth:
  "i < length (tests sc) \<Longrightarrow>
     testResults handlers sourceCode env sc ! i = run_test handlers sourceCode env (tests sc ! i)"
  by (simp add: testResults_def)

lemma testResults_same_outcomes:
  assumes "\<forall>t \<in> set (tests sc). handler_outcome h1 sourceCode env1 t = handler_outcome h2 sourceCode env2 t"
  shows "testResults h1 sourceCode env1 sc = testResults h2 sourceCode env2 sc"
  unfolding testResults_def
proof (rule map_cong [OF refl])
  fix t
  assume "t \<in> set (tests sc)"
  with assms show "run_test h1 sourceCode env1 t = run_test h2 sourceCode env2 t"
    by (intro run_test_outcome) blast
qed

lemma filter_type_testResults:
  "filter (\<lambda>r. run_type r = ty) (testResults handlers sourceCode env sc) =
     map (run_test handlers sourceCode env) (filter (\<lambda>t. type t = ty) (tests sc))"
  by (simp add: testResults_def filter_map comp_def run_test_type)

subsection \<open>Fault isolation\<close>

text \<open>
  Claim C2. For a POST whose artifact exists and can be read, if the handler of the test
  at position \<open>i\<close> rejects with \<open>e\<close>, then the response still has status 200 and carries
  the combined evaluation, and the entry of that test is score 0 with the message of
  \<open>e\<close> as its error (\<open>'Unknown error'\<close> when \<open>e\<close> is no \<open>Error\<close> object). The other tests
  are untouched: under any other registry whose handler calls settle in the same way for
  every test but the one at \<open>i\<close> (in particular, one where that call does not throw), the
  response also has status 200, each other test has the same entry, and the \<open>details\<close> of
  the response agree on every other test type.
\<close>

theorem handler_exception_isolated:
  assumes "request_method request = ''POST''"
    and "request_json request = Inr req"
    and "R2_BUCKET_get env (artifact_path req) = Inr (Some r2Object)"
    and "r2_text r2Object = Inr sourceCode"
    and "ts = tests (scorecard req)"
    and "i < length ts"
    and "handlers (type (ts ! i)) = Some handler"
    and "handler sourceCode (config (ts ! i)) env = Inl e"
  shows "evaluator_fetch handlers request env =
           \<lparr>status = 200,
            body = EvaluationBody (evaluate (testResults handlers sourceCode env (scorecard req)))\<rparr>
       \<and> testResults handlers sourceCode env (scorecard req) ! i =
           \<lparr>run_type = type (ts ! i), run_weight = weight (ts ! i),
            result = \<lparr>score = 0, details = JObj [],
                      error = Some (if instanceof_Error e then thrown_message e
                                    else ''Unknown error'')\<rparr>\<rparr>
       \<and> (\<forall>handlers'.
             (\<forall>j. j < length ts \<and> j \<noteq> i \<longrightarrow>
                  handler_outcome handlers' sourceCode env (ts ! j) =
                  handler_outcome handlers sourceCode env (ts ! j)) \<longrightarrow>
             evaluator_fetch handlers' request env =
               \<lparr>status = 200,
                body = EvaluationBody
                         (evaluate (testResults handlers' sourceCode env (scorecard req)))\<rparr>
             \<and> (\<forall>j. j < length ts \<and> j \<noteq> i \<longrightarrow>
                    testResults handlers' sourceCode env (scorecard req) ! j =
                    testResults handlers sourceCode env (scorecard req) ! j)
             \<and> (\<forall>ty. ty \<noteq> type (ts ! i) \<longrightarrow>
                    test_details (evaluate (testResults handlers' sourceCode env (scorecard req))) ty =
                    test_details (evaluate (testResults handlers sourceCode env (scorecard req))) ty))"
proof (intro conjI allI impI)
  show "evaluator_fetch handlers request env =
      \<lparr>status = 200,
       body = EvaluationBody (evaluate (testResults handlers sourceCode env (scorecard req)))\<rparr>"
    by (rule evaluator_fetch_ok [OF assms(1-4)])
next
  show "testResults handlers sourceCode env (scorecard req) ! i =
      \<lparr>run_type = type (ts ! i), run_weight = weight (ts ! i),
       result = \<lparr>score = 0, details = JObj [],
                 error = Some (if instanceof_Error e then thrown_message e
                               else ''Unknown error'')\<rparr>\<rparr>"
    using assms(5-8) by (simp add: testResults_nth run_test_def)
next
  fix handlers'
  show "evaluator_fetch handlers' request env =
      \<lparr>status = 200,
       body = EvaluationBody (evaluate (testResults handlers' sourceCode env (scorecard req)))\<rparr>"
    by (rule evaluator_fetch_ok [OF assms(1-4)])
next
  fix handlers' j
  assume agree: "\<forall>j. j < length ts \<and> j \<noteq> i \<longrightarrow>
      handler_outcome handlers' sourceCode env (ts ! j) =
      handler_outcome handlers sourceCode env (ts ! j)"
    and j: "j < length ts \<and> j \<noteq> i"
  then have "run_test handlers' sourceCode env (ts ! j) = run_test handlers sourceCode env (ts ! j)"
    by (intro run_test_outcome) simp
  then show "testResults handlers' sourceCode env (scorecard req) ! j =
      testResults handlers sourceCode env (scorecard req) ! j"
    using j assms(5) by (simp add: testResults_nth)
next
  fix handlers' ty
  assume agree: "\<forall>j. j < length ts \<and> j \<noteq> i \<longrightarrow>
      handler_outcome handlers' sourceCode env (ts ! j) =
      handler_outcome handlers sourceCode env (ts ! j)"
    and ty: "ty \<noteq> type (ts ! i)"
  have "run_test handlers' sourceCode env t = run_test handlers sourceCode env t"
    if "t \<in> set (filter (\<lambda>t. type t = ty) ts)" for t
  proof -
    from that obtain j where "j < length ts" and "ts ! j = t"
      by (auto simp: in_set_conv_nth)
    moreover from that ty have "t \<noteq> ts ! i"
      by auto
    ultimately show ?thesis
      using agree by (intro run_test_outcome) auto
  qed
  then have "filter (\<lambda>r. run_type r = ty) (testResults handlers' sourceCode env (scorecard req)) =
      filter (\<lambda>r. run_type r = ty) (testResults handlers sourceCode env (scorecard req))"
    unfolding filter_type_testResults assms(5) [symmetric]
    by (intro map_cong [OF refl])
  then show "test_details (evaluate (testResults handlers' sourceCode env (scorecard req))) ty =
      test_details (evaluate (testResults handlers sourceCode env (scorecard req))) ty"
    by (simp add: test_details_evaluate)
qed

text \<open>
  The theorem on the unit test's scenario: the linter rejects with \<open>'Linter failed'\<close>, the
  model handler scores 75, both weights are 0.5. The response is 200 with score 37.5, and
  the model test's result is the one obtained with a linter that does not throw.
\<close>

theorem handler_exception_isolated_witness:
  "evaluator_fetch (testHandlers (failing_handler (JsError ''Linter failed'')) (mock_handler (scored 75)))
     (post ''test.ts''
        [\<lparr>type = ''linter'', weight = 0.5, config = JObj []\<rparr>,
         \<lparr>type = ''llm_evaluation'', weight = 0.5, config = JObj []\<rparr>])
     (bucket_env ''test.ts'' ''mock source code'') =
     \<lparr>status = 200,
      body = EvaluationBody
        \<lparr>quality_score = 37.5,
         test_details =
           [''linter'' \<mapsto> \<lparr>score = 0, details = JObj [], error = Some ''Linter failed''\<rparr>,
            ''llm_evaluation'' \<mapsto> scored 75]\<rparr>\<rparr>
   \<and> result (testResults (testHandlers (mock_handler (scored 90)) (mock_handler (scored 75)))
         ''mock source code'' (bucket_env ''test.ts'' ''mock source code'')
         \<lparr>tests = [\<lparr>type = ''linter'', weight = 0.5, config = JObj []\<rparr>,
                    \<lparr>type = ''llm_evaluation'', weight = 0.5, config = JObj []\<rparr>]\<rparr> ! 1) =
     result (testResults (testHandlers (failing_handler (JsError ''Linter failed'')) (mock_handler (scored 75)))
         ''mock source code'' (bucket_env ''test.ts'' ''mock source code'')
         \<lparr>tests = [\<lparr>type = ''linter'', weight = 0.5, config = JObj []\<rparr>,
                    \<lparr>type = ''llm_evaluation'', weight = 0.5, config = JObj []\<rparr>]\<rparr> ! 1)"
proof -
  let ?ts = "[\<lparr>type = ''linter'', weight = 0.5, config = JObj []\<rparr>,
              \<lparr>type = ''llm_evaluation'', weight = 0.5, config = JObj []\<rparr>]"
  let ?req = "\<lparr>artifact_path = ''test.ts'', scorecard = \<lparr>tests = ?ts\<rparr>\<rparr>"
  let ?env = "bucket_env ''test.ts'' ''mock source code''"
  let ?h = "testHandlers (failing_handler (JsError ''Linter failed'')) (mock_handler (scored 75))"
  let ?h' = "testHandlers (mock_handler (scored 90)) (mock_handler (scored 75))"
  have 1: "request_method (post ''test.ts'' ?ts) = ''POST''"
    by (simp add: post_def)
  have 2: "request_json (post ''test.ts'' ?ts) = Inr ?req"
    by (simp add: post_def)
  have 3: "R2_BUCKET_get ?env (artifact_path ?req) = Inr (Some (R2Object (Inr ''mock source code'')))"
    by (simp add: bucket_env_def)
  have 4: "r2_text (R2Object (Inr ''mock source code'')) = Inr ''mock source code''"
    by simp
  have 5: "?ts = tests (scorecard ?req)"
    by simp
  have 6: "0 < length ?ts"
    by simp
  have 7: "?h (type (?ts ! 0)) = Some (failing_handler (JsError ''Linter failed''))"
    by (simp add: testHandlers_def)
  have 8: "failing_handler (JsError ''Linter failed'') ''mock source code'' (config (?ts ! 0)) ?env
      = Inl (JsError ''Linter failed'')"
    by (simp add: failing_handler_def)
  have agree: "\<forall>j. j < length ?ts \<and> j \<noteq> 0 \<longrightarrow>
      handler_outcome ?h' ''mock source code'' ?env (?ts ! j) =
      handler_outcome ?h ''mock source code'' ?env (?ts ! j)"
  proof (intro allI impI)
    fix j
    assume "j < length ?ts \<and> j \<noteq> 0"
    then have "j = 1"
      by simp
    then show "handler_outcome ?h' ''mock source code'' ?env (?ts ! j) =
        handler_outcome ?h ''mock source code'' ?env (?ts ! j)"
      by (simp add: handler_outcome_def testHandlers_def)
  qed
  note iso = handler_exception_isolated
    [where request = "post ''test.ts'' ?ts" and req = ?req and env = ?env
       and r2Object = "R2Object (Inr ''mock source code'')" and sourceCode = "''mock source code''"
       and ts = ?ts and i = 0 and handlers = ?h
       and handler = "failing_handler (JsError ''Linter failed'')" and e = "JsError ''Linter failed''",
     OF 1 2 3 4 5 6 7 8]
  have a: "evaluator_fetch ?h (post ''test.ts'' ?ts) ?env =
      \<lparr>status = 200,
       body = EvaluationBody (evaluate (testResults ?h ''mock source code'' ?env (scorecard ?req)))\<rparr>"
    by (rule iso [THEN conjunct1])
  have b: "testResults ?h' ''mock source code'' ?env (scorecard ?req) ! 1 =
      testResults ?h ''mock source code'' ?env (scorecard ?req) ! 1"
    by (rule iso [THEN conjunct2, THEN conjunct2, THEN spec, of ?h', THEN mp, OF agree,
          THEN conjunct2, THEN conjunct1, THEN spec, of 1, THEN mp]) simp
  have c: "evaluate (testResults ?h ''mock source code'' ?env (scorecard ?req)) =
      \<lparr>quality_score = 37.5,
       test_details =
         [''linter'' \<mapsto> \<lparr>score = 0, details = JObj [], error = Some ''Linter failed''\<rparr>,
          ''llm_evaluation'' \<mapsto> scored 75]\<rparr>"
    by (simp add: evaluate_def testResults_def run_test_def testHandlers_def
        failing_handler_def mock_handler_def scored_def)
  show ?thesis
    using a b c by simp
qed

subsection \<open>Unknown test types\<close>

text \<open>
  Claim C3, as amended. With the registry of the two handlers, a test whose type is
  neither \<open>'linter'\<close> nor \<open>'llm_evaluation'\<close> does not abort the request: the response has
  status 200, the test's entry is score 0 with empty details and the error text
  \<open>'Unknown test type: '\<close> followed by the type, and the test's weight is part of the sum
  of all the scorecard's weights that divides the weighted sum of the scores.
\<close>

theorem unknown_test_type_scores_zero:
  assumes "request_method request = ''POST''"
    and "request_json request = Inr req"
    and "R2_BUCKET_get env (artifact_path req) = Inr (Some r2Object)"
    and "r2_text r2Object = Inr sourceCode"
    and "ts = tests (scorecard req)"
    and "i < length ts"
    and "type (ts ! i) \<noteq> ''linter''"
    and "type (ts ! i) \<noteq> ''llm_evaluation''"
    and "rs = testResults (testHandlers linter llm_evaluation) sourceCode env (scorecard req)"
  shows "evaluator_fetch (testHandlers linter llm_evaluation) request env =
           \<lparr>status = 200, body = EvaluationBody (evaluate rs)\<rparr>
       \<and> rs ! i =
           \<lparr>run_type = type (ts ! i), run_weight = weight (ts ! i),
            result = \<lparr>score = 0, details = JObj [],
                      error = Some (''Unknown test type: '' @ type (ts ! i))\<rparr>\<rparr>
       \<and> quality_score (evaluate rs) =
           (if 0 < sum_list (map weight ts)
            then sum_list (map (\<lambda>r. score (result r) * run_weight r) rs) / sum_list (map weight ts)
            else 0)"
proof (intro conjI)
  show "evaluator_fetch (testHandlers linter llm_evaluation) request env =
      \<lparr>status = 200, body = EvaluationBody (evaluate rs)\<rparr>"
    unfolding assms(9) by (rule evaluator_fetch_ok [OF assms(1-4)])
next
  have "testHandlers linter llm_evaluation (type (ts ! i)) = None"
    using assms(7,8) by (simp add: testHandlers_def)
  then show "rs ! i =
      \<lparr>run_type = type (ts ! i), run_weight = weight (ts ! i),
       result = \<lparr>score = 0, details = JObj [],
                 error = Some (''Unknown test type: '' @ type (ts ! i))\<rparr>\<rparr>"
    using assms(5,6,9) by (simp add: testResults_nth run_test_def)
next
  have "map run_weight rs = map weight ts"
    using assms(5,9) by (simp add: testResults_weights)
  then show "quality_score (evaluate rs) =
      (if 0 < sum_list (map weight ts)
       then sum_list (map (\<lambda>r. score (result r) * run_weight r) rs) / sum_list (map weight ts)
       else 0)"
    by (simp add: quality_score_evaluate)
qed

text \<open>
  The theorem on a scorecard of a linter test of weight 1 scoring 100 and an unknown test
  of weight 3: the unknown test's weight counts, so the score is 25.
\<close>

theorem unknown_test_type_scores_zero_witness:
  "evaluator_fetch (testHandlers (mock_handler (scored 100)) (mock_handler (scored 80)))
     (post ''test.ts''
        [\<lparr>type = ''linter'', weight = 1, config = JObj []\<rparr>,
         \<lparr>type = ''unknown_test_type'', weight = 3, config = JObj []\<rparr>])
     (bucket_env ''test.ts'' ''mock source code'') =
     \<lparr>status = 200,
      body = EvaluationBody
        \<lparr>quality_score = 25,
         test_details =
           [''linter'' \<mapsto> scored 100,
            ''unknown_test_type'' \<mapsto>
              \<lparr>score = 0, details = JObj [],
               error = Some ''Unknown test type: unknown_test_type''\<rparr>]\<rparr>\<rparr>"
proof -
  let ?ts = "[\<lparr>type = ''linter'', weight = 1, config = JObj []\<rparr>,
              \<lparr>type = ''unknown_test_type'', weight = 3, config = JObj []\<rparr>]"
  let ?req = "\<lparr>artifact_path = ''test.ts'', scorecard = \<lparr>tests = ?ts\<rparr>\<rparr>"
  let ?env = "bucket_env ''test.ts'' ''mock source code''"
  let ?h = "testHandlers (mock_handler (scored 100)) (mock_handler (scored 80))"
  have 1: "request_method (post ''test.ts'' ?ts) = ''POST''"
    by (simp add: post_def)
  have 2: "request_json (post ''test.ts'' ?ts) = Inr ?req"
    by (simp add: post_def)
  have 3: "R2_BUCKET_get ?env (artifact_path ?req) = Inr (Some (R2Object (Inr ''mock source code'')))"
    by (simp add: bucket_env_def)
  have 4: "r2_text (R2Object (Inr ''mock source code'')) = Inr ''mock source code''"
    by simp
  have 5: "?ts = tests (scorecard ?req)"
    by simp
  have 6: "1 < length ?ts"
    by simp
  have 7: "type (?ts ! 1) \<noteq> ''linter''"
    by simp
  have 8: "type (?ts ! 1) \<noteq> ''llm_evaluation''"
    by simp
  note unknown = unknown_test_type_scores_zero
    [where request = "post ''test.ts'' ?ts" and req = ?req and env = ?env
       and r2Object = "R2Object (Inr ''mock source code'')" and sourceCode = "''mock source code''"
       and ts = ?ts and i = 1 and linter = "mock_handler (scored 100)"
       and llm_evaluation = "mock_handler (scored 80)",
     OF 1 2 3 4 5 6 7 8 refl]
  have "evaluate (testResults ?h ''mock source code'' ?env (scorecard ?req)) =
      \<lparr>quality_score = 25,
       test_details =
         [''linter'' \<mapsto> scored 100,
          ''unknown_test_type'' \<mapsto>
            \<lparr>score = 0, details = JObj [],
             error = Some ''Unknown test type: unknown_test_type''\<rparr>]\<rparr>"
    by (simp add: evaluate_def testResults_def run_test_def testHandlers_def mock_handler_def
        scored_def)
  then show ?thesis
    using unknown [THEN conjunct1] by simp
qed

text \<open>
  The error text of claim C3 as first stated, \<open>'unknown test type'\<close>, is not the one
  produced: for the type \<open>unknown_test_type\<close> the text names the type.
\<close>

theorem unknown_test_type_error_text_counterexample:
  "error (result (testResults (testHandlers (mock_handler (scored 100)) (mock_handler (scored 80)))
       ''mock source code'' (bucket_env ''test.ts'' ''mock source code'')
       \<lparr>tests = [\<lparr>type = ''unknown_test_type'', weight = 1, config = JObj []\<rparr>]\<rparr> ! 0))
     = Some ''Unknown test type: unknown_test_type''
   \<and> error (result (testResults (testHandlers (mock_handler (scored 100)) (mock_handler (scored 80)))
       ''mock source code'' (bucket_env ''test.ts'' ''mock source code'')
       \<lparr>tests = [\<lparr>type = ''unknown_test_type'', weight = 1, config = JObj []\<rparr>]\<rparr> ! 0))
     \<noteq> Some ''unknown test type''"
  by (simp add: testResults_def run_test_def testHandlers_def)

subsection \<open>Determinism\<close>

text \<open>
  Claim C8. Two runs return the same response whenever both are POSTs with the same
  scorecard, the artifacts they name hold the same bytes, and for every test of the
  scorecard the handler call settles in the same way in both runs, which is the case when
  each handler is the same function of source text and configuration. The paths of the
  artifacts, the rest of the buckets and the rest of the environments may differ.
\<close>

theorem evaluator_deterministic:
  assumes "request_method request_a = ''POST''"
    and "request_method request_b = ''POST''"
    and "request_json request_a = Inr req_a"
    and "request_json request_b = Inr req_b"
    and "scorecard req_a = scorecard req_b"
    and "R2_BUCKET_get env_a (artifact_path req_a) = Inr (Some (R2Object (Inr bytes)))"
    and "R2_BUCKET_get env_b (artifact_path req_b) = Inr (Some (R2Object (Inr bytes)))"
    and "\<forall>t \<in> set (tests (scorecard req_a)).
           handler_outcome handlers_a bytes env_a t = handler_outcome handlers_b bytes env_b t"
  shows "evaluator_fetch handlers_a request_a env_a = evaluator_fetch handlers_b request_b env_b"
proof -
  have "testResults handlers_a bytes env_a (scorecard req_a) =
      testResults handlers_b bytes env_b (scorecard req_a)"
    by (rule testResults_same_outcomes [OF assms(8)])
  moreover have "evaluator_fetch handlers_a request_a env_a =
      \<lparr>status = 200,
       body = EvaluationBody (evaluate (testResults handlers_a bytes env_a (scorecard req_a)))\<rparr>"
    by (rule evaluator_fetch_ok [OF assms(1,3,6)]) simp
  moreover have "evaluator_fetch handlers_b request_b env_b =
      \<lparr>status = 200,
       body = EvaluationBody (evaluate (testResults handlers_b bytes env_b (scorecard req_b)))\<rparr>"
    by (rule evaluator_fetch_ok [OF assms(2,4,7)]) simp
  ultimately show ?thesis
    using assms(5) by simp
qed

text \<open>
  The theorem on two runs that read the same bytes from different paths of different
  buckets.
\<close>

theorem evaluator_deterministic_witness:
  "evaluator_fetch (testHandlers (handleLinter_basic (\<lambda>sourceCode. None)) (mock_handler (scored 80)))
     (post ''artifacts/wave-1/w1-a1.html''
        [\<lparr>type = ''linter'', weight = 0.4, config = JObj []\<rparr>,
         \<lparr>type = ''llm_evaluation'', weight = 0.6, config = JObj []\<rparr>])
     (bucket_env ''artifacts/wave-1/w1-a1.html'' ''let x = 1'')
   = evaluator_fetch (testHandlers (handleLinter_basic (\<lambda>sourceCode. None)) (mock_handler (scored 80)))
     (post ''copy.html''
        [\<lparr>type = ''linter'', weight = 0.4, config = JObj []\<rparr>,
         \<lparr>type = ''llm_evaluation'', weight = 0.6, config = JObj []\<rparr>])
     (bucket_env ''copy.html'' ''let x = 1'')"
proof -
  let ?ts = "[\<lparr>type = ''linter'', weight = 0.4, config = JObj []\<rparr>,
              \<lparr>type = ''llm_evaluation'', weight = 0.6, config = JObj []\<rparr>]"
  let ?p1 = "''artifacts/wave-1/w1-a1.html''"
  let ?p2 = "''copy.html''"
  let ?req1 = "\<lparr>artifact_path = ?p1, scorecard = \<lparr>tests = ?ts\<rparr>\<rparr>"
  let ?req2 = "\<lparr>artifact_path = ?p2, scorecard = \<lparr>tests = ?ts\<rparr>\<rparr>"
  let ?h = "testHandlers (handleLinter_basic (\<lambda>sourceCode. None)) (mock_handler (scored 80))"
  have 1: "request_method (post ?p1 ?ts) = ''POST''"
    by (simp add: post_def)
  have 2: "request_method (post ?p2 ?ts) = ''POST''"
    by (simp add: post_def)
  have 3: "request_json (post ?p1 ?ts) = Inr ?req1"
    by (simp add: post_def)
  have 4: "request_json (post ?p2 ?ts) = Inr ?req2"
    by (simp add: post_def)
  have 5: "scorecard ?req1 = scorecard ?req2"
    by simp
  have 6: "R2_BUCKET_get (bucket_env ?p1 ''let x = 1'') (artifact_path ?req1) =
      Inr (Some (R2Object (Inr ''let x = 1'')))"
    by (simp add: bucket_env_def)
  have 7: "R2_BUCKET_get (bucket_env ?p2 ''let x = 1'') (artifact_path ?req2) =
      Inr (Some (R2Object (Inr ''let x = 1'')))"
    by (simp add: bucket_env_def)
  have 8: "\<forall>t \<in> set (tests (scorecard ?req1)).
      handler_outcome ?h ''let x = 1'' (bucket_env ?p1 ''let x = 1'') t =
      handler_outcome ?h ''let x = 1'' (bucket_env ?p2 ''let x = 1'') t"
    by (simp add: handler_outcome_def testHandlers_def handleLinter_basic_def mock_handler_def)
  show ?thesis
    by (rule evaluator_deterministic
        [where req_a = ?req1 and req_b = ?req2 and bytes = "''let x = 1''", OF 1 2 3 4 5 6 7 8])
qed

subsection \<open>Tests of the same type\<close>




section \<open>Properties of the handlers\<close>

subsection \<open>The linter\<close>

lemma lint_score_formula:
  "lint_score errorCount warningCount =
     max 0 (100 - 10 * real errorCount - 2 * real warningCount)"
  by (simp add: lint_score_def Let_def algebra_simps)

lemma lint_score_range: "0 \<le> lint_score errorCount warningCount \<and> lint_score errorCount warningCount \<le> 100"
  by (simp add: lint_score_def Let_def)

lemma trim_Nil: "trim [] = []"
  by (simp add: trim_def)

text \<open>
  Claim C4, as amended. For every source text and configuration: on an empty text or one
  of spaces only, both variants return score 100 with zero errors and zero warnings. The
  variant with the built-in checker always returns
  \<open>max(0, 100 - 10 * errorCount - 2 * warningCount)\<close> for the counts it reports, which is
  never above 100. The ESLint variant returns the same formula of the counts of the first
  result (0 and 0 when there is none) whenever reading \<open>config.rules\<close> and the ESLint run
  complete; when one of them throws \<open>e\<close>, it returns score 0 with zero errors and zero
  warnings and the error text of \<open>e\<close>.
\<close>

theorem linter_score:
  "(trim sourceCode = [] \<longrightarrow>
      handleLinter lintText sourceCode cfg env =
        Inr \<lparr>score = 100, details = lint_details 0 0 [], error = None\<rparr>
      \<and> handleLinter_basic new_Function sourceCode cfg env =
        Inr \<lparr>score = 100, details = lint_details 0 0 [], error = None\<rparr>)
   \<and> (\<exists>errorCount warningCount msgs.
        handleLinter_basic new_Function sourceCode cfg env =
          Inr \<lparr>score = max 0 (100 - 10 * real errorCount - 2 * real warningCount),
               details = lint_details errorCount warningCount msgs, error = None\<rparr>
        \<and> max 0 (100 - 10 * real errorCount - 2 * real warningCount) \<le> 100)
   \<and> (trim sourceCode \<noteq> [] \<and> get_prop cfg ''rules'' = Inr rules
        \<and> lintText rules sourceCode = Inr results \<longrightarrow>
        (\<exists>errorCount warningCount msgs.
           handleLinter lintText sourceCode cfg env =
             Inr \<lparr>score = max 0 (100 - 10 * real errorCount - 2 * real warningCount),
                  details = lint_details errorCount warningCount msgs, error = None\<rparr>
           \<and> max 0 (100 - 10 * real errorCount - 2 * real warningCount) \<le> 100
           \<and> errorCount = (case results of [] \<Rightarrow> 0 | r # rs \<Rightarrow> result_errorCount r)
           \<and> warningCount = (case results of [] \<Rightarrow> 0 | r # rs \<Rightarrow> result_warningCount r)))
   \<and> (trim sourceCode \<noteq> []
        \<and> (get_prop cfg ''rules'' = Inl e
             \<or> get_prop cfg ''rules'' = Inr rules \<and> lintText rules sourceCode = Inl e) \<longrightarrow>
        handleLinter lintText sourceCode cfg env =
          Inr \<lparr>score = 0, details = lint_details 0 0 [],
               error = Some (if instanceof_Error e then thrown_message e else ''Linting failed'')\<rparr>)"
proof (intro conjI impI)
  assume "trim sourceCode = []"
  then show "handleLinter lintText sourceCode cfg env =
      Inr \<lparr>score = 100, details = lint_details 0 0 [], error = None\<rparr>"
    and "handleLinter_basic new_Function sourceCode cfg env =
      Inr \<lparr>score = 100, details = lint_details 0 0 [], error = None\<rparr>"
    by (simp_all add: handleLinter_def handleLinter_basic_def)
next
  show "\<exists>errorCount warningCount msgs.
        handleLinter_basic new_Function sourceCode cfg env =
          Inr \<lparr>score = max 0 (100 - 10 * real errorCount - 2 * real warningCount),
               details = lint_details errorCount warningCount msgs, error = None\<rparr>
        \<and> max 0 (100 - 10 * real errorCount - 2 * real warningCount) \<le> 100"
  proof (cases "sourceCode = [] \<or> trim sourceCode = []")
    case True
    then have "handleLinter_basic new_Function sourceCode cfg env =
        Inr \<lparr>score = max 0 (100 - 10 * real (0::nat) - 2 * real (0::nat)),
             details = lint_details 0 0 [], error = None\<rparr>"
      by (simp add: handleLinter_basic_def)
    then show ?thesis
      by (intro exI [of _ 0] exI [of _ "[]"] conjI) simp_all
  next
    case False
    obtain errors warnings where p: "performBasicLinting new_Function sourceCode = (errors, warnings)"
      by (cases "performBasicLinting new_Function sourceCode") auto
    have "handleLinter_basic new_Function sourceCode cfg env =
        Inr \<lparr>score = max 0 (100 - 10 * real (length errors) - 2 * real (length warnings)),
             details = lint_details (length errors) (length warnings) (errors @ warnings),
             error = None\<rparr>"
      using False p by (simp add: handleLinter_basic_def Let_def lint_score_formula)
    then show ?thesis
      by (intro exI [of _ "length errors"] exI [of _ "length warnings"]
          exI [of _ "errors @ warnings"] conjI) simp_all
  qed
next
  assume a: "trim sourceCode \<noteq> [] \<and> get_prop cfg ''rules'' = Inr rules
      \<and> lintText rules sourceCode = Inr results"
  then have ne: "\<not> (sourceCode = [] \<or> trim sourceCode = [])"
    using trim_Nil by auto
  let ?e = "case results of [] \<Rightarrow> 0 | r # rs \<Rightarrow> result_errorCount r"
  let ?w = "case results of [] \<Rightarrow> 0 | r # rs \<Rightarrow> result_warningCount r"
  let ?m = "map message_json (case results of [] \<Rightarrow> [] | r # rs \<Rightarrow> result_messages r)"
  have "handleLinter lintText sourceCode cfg env =
      Inr \<lparr>score = max 0 (100 - 10 * real ?e - 2 * real ?w),
           details = lint_details ?e ?w ?m, error = None\<rparr>"
    using a ne by (cases results) (simp_all add: handleLinter_def Let_def lint_score_formula)
  then show "\<exists>errorCount warningCount msgs.
           handleLinter lintText sourceCode cfg env =
             Inr \<lparr>score = max 0 (100 - 10 * real errorCount - 2 * real warningCount),
                  details = lint_details errorCount warningCount msgs, error = None\<rparr>
           \<and> max 0 (100 - 10 * real errorCount - 2 * real warningCount) \<le> 100
           \<and> errorCount = (case results of [] \<Rightarrow> 0 | r # rs \<Rightarrow> result_errorCount r)
           \<and> warningCount = (case results of [] \<Rightarrow> 0 | r # rs \<Rightarrow> result_warningCount r)"
    by (intro exI [of _ ?e] exI [of _ ?w] exI [of _ ?m] conjI) simp_all
next
  assume a: "trim sourceCode \<noteq> []
      \<and> (get_prop cfg ''rules'' = Inl e
           \<or> get_prop cfg ''rules'' = Inr rules \<and> lintText rules sourceCode = Inl e)"
  then have ne: "\<not> (sourceCode = [] \<or> trim sourceCode = [])"
    using trim_Nil by auto
  from a ne show "handleLinter lintText sourceCode cfg env =
      Inr \<lparr>score = 0, details = lint_details 0 0 [],
           error = Some (if instanceof_Error e then thrown_message e else ''Linting failed'')\<rparr>"
    by (auto simp: handleLinter_def linting_failed_def)
qed

text \<open>
  The theorem on a text of spaces, on an ESLint run that reports one error and one
  warning (score 88), on an ESLint run that throws (score 0), and on the built-in checker
  given \<open>let x = 1\<close>, which finds a missing semicolon and an unused variable (score 96).
\<close>

theorem linter_score_witness:
  "handleLinter_basic (\<lambda>sourceCode. None) [CHR '' '', CHR 0x0A, CHR 0x09] (JObj [])
       (reply_env AiOther) =
     Inr \<lparr>score = 100, details = lint_details 0 0 [], error = None\<rparr>
   \<and> handleLinter (fixed_lint 1 1) ''var a = 1'' (JObj []) (reply_env AiOther) =
     Inr \<lparr>score = 88, details = lint_details 1 1 [], error = None\<rparr>
   \<and> handleLinter (failing_lint (JsError ''Failed to load config'')) ''var a = 1'' (JObj [])
       (reply_env AiOther) =
     Inr \<lparr>score = 0, details = lint_details 0 0 [], error = Some ''Failed to load config''\<rparr>
   \<and> handleLinter_basic (\<lambda>sourceCode. None) ''let x = 1'' (JObj []) (reply_env AiOther) =
     Inr \<lparr>score = 96,
          details = lint_details 0 2
            [LintIssue 1 9 ''warning'' ''Missing semicolon'' ''semi'',
             LintIssue 1 5 ''warning''
               ([CHR 0x27] @ ''x'' @ [CHR 0x27] @ '' is assigned a value but never used'')
               ''no-unused-vars''],
          error = None\<rparr>"
proof -
  let ?env = "reply_env AiOther"
  let ?blank = "[CHR '' '', CHR 0x0A, CHR 0x09]"
  have blank: "trim ?blank = []"
    by (simp add: trim_def js_space_def)
  have nonblank: "trim ''var a = 1'' \<noteq> []"
    by (simp add: trim_def js_space_def)
  have rules: "get_prop (JObj []) ''rules'' = Inr None"
    by (simp add: get_prop_def)
  have a: "handleLinter_basic (\<lambda>sourceCode. None) ?blank (JObj []) ?env =
      Inr \<lparr>score = 100, details = lint_details 0 0 [], error = None\<rparr>"
    using linter_score [where sourceCode = ?blank, THEN conjunct1] blank by simp
  have "\<exists>errorCount warningCount msgs.
      handleLinter (fixed_lint 1 1) ''var a = 1'' (JObj []) ?env =
        Inr \<lparr>score = max 0 (100 - 10 * real errorCount - 2 * real warningCount),
             details = lint_details errorCount warningCount msgs, error = None\<rparr>
      \<and> max 0 (100 - 10 * real errorCount - 2 * real warningCount) \<le> 100
      \<and> errorCount = (case [\<lparr>result_errorCount = 1, result_warningCount = 1,
                                 result_messages = []\<rparr>] of
                         [] \<Rightarrow> 0 | r # rs \<Rightarrow> result_errorCount r)
      \<and> warningCount = (case [\<lparr>result_errorCount = 1, result_warningCount = 1,
                                   result_messages = []\<rparr>] of
                           [] \<Rightarrow> 0 | r # rs \<Rightarrow> result_warningCount r)"
    by (rule linter_score
        [where sourceCode = "''var a = 1''" and cfg = "JObj []" and rules = None
           and lintText = "fixed_lint 1 1",
         THEN conjunct2, THEN conjunct2, THEN conjunct1, THEN mp])
       (simp add: nonblank rules fixed_lint_def)
  then have "score (projr (handleLinter (fixed_lint 1 1) ''var a = 1'' (JObj []) ?env)) = 88"
    by auto
  moreover have "handleLinter (fixed_lint 1 1) ''var a = 1'' (JObj []) ?env =
      Inr \<lparr>score = score (projr (handleLinter (fixed_lint 1 1) ''var a = 1'' (JObj []) ?env)),
           details = lint_details 1 1 [], error = None\<rparr>"
    using nonblank by (simp add: handleLinter_def rules fixed_lint_def Let_def)
  ultimately have b: "handleLinter (fixed_lint 1 1) ''var a = 1'' (JObj []) ?env =
      Inr \<lparr>score = 88, details = lint_details 1 1 [], error = None\<rparr>"
    by simp
  have c: "handleLinter (failing_lint (JsError ''Failed to load config'')) ''var a = 1'' (JObj [])
       ?env =
     Inr \<lparr>score = 0, details = lint_details 0 0 [], error = Some ''Failed to load config''\<rparr>"
    using linter_score
      [where sourceCode = "''var a = 1''" and cfg = "JObj []" and rules = None
         and lintText = "failing_lint (JsError ''Failed to load config'')"
         and e = "JsError ''Failed to load config''" and env = ?env,
       THEN conjunct2, THEN conjunct2, THEN conjunct2]
    by (simp add: nonblank rules failing_lint_def)
  have d: "handleLinter_basic (\<lambda>sourceCode. None) ''let x = 1'' (JObj []) ?env =
     Inr \<lparr>score = 96,
          details = lint_details 0 2
            [LintIssue 1 9 ''warning'' ''Missing semicolon'' ''semi'',
             LintIssue 1 5 ''warning''
               ([CHR 0x27] @ ''x'' @ [CHR 0x27] @ '' is assigned a value but never used'')
               ''no-unused-vars''],
          error = None\<rparr>"
    by code_simp
  show ?thesis
    using a b c d by simp
qed

text \<open>
  Claim C4 as first stated gives, for every source and configuration, the score
  \<open>max(0, 100 - 10 * errorCount - 2 * warningCount)\<close>. When ESLint throws, as it does
  on a configuration it rejects, or when the configuration is \<open>null\<close>, the handler
  reports zero errors and zero warnings with the score 0, where the formula gives 100.
\<close>

theorem linter_failure_counterexample:
  "handleLinter (failing_lint (JsError ''Failed to load config'')) ''var a = 1'' (JObj [])
       (reply_env AiOther) =
     Inr \<lparr>score = 0, details = lint_details 0 0 [], error = Some ''Failed to load config''\<rparr>
   \<and> handleLinter (fixed_lint 0 0) ''var a = 1'' JNull (reply_env AiOther) =
     Inr \<lparr>score = 0, details = lint_details 0 0 [],
          error = Some (''Cannot read properties of null (reading '' @ [CHR 0x27] @ ''rules''
                        @ [CHR 0x27] @ '')'')\<rparr>
   \<and> max 0 (100 - 10 * real (0 :: nat) - 2 * real (0 :: nat)) = (100 :: real)"
  by (simp add: handleLinter_def failing_lint_def linting_failed_def get_prop_def trim_def
      js_space_def)

subsection \<open>The model handler\<close>










section \<open>Properties of the Generator\<close>

subsection \<open>The deferred job\<close>

lemma settled_report_failure: "settled (report_failure payload env made) = Inr ()"
  by (simp add: report_failure_def Let_def split: sum.split)

lemma report_failure_posts:
  assumes "ORCHESTRATOR_idFromString env (json_member payload ''orchestrator_id'') = Inr orchestratorId"
    and "ORCHESTRATOR_get env orchestratorId = Inr orchestrator"
  shows "effects (report_failure payload env made) =
     made @ [OrchestratorFetch report_url
               \<lparr>artifact_id = json_member payload ''artifact_id'', r2_path = None,
                report_status = FAILED,
                cost_metrics = \<lparr>prompt_tokens = 0, completion_tokens = 0\<rparr>\<rparr>]"
  using assms by (simp add: report_failure_def Let_def split: sum.split)

lemma generation_always_settles:
  "settled (handleGeneration payload env) = Inr ()"
  by (simp add: handleGeneration_def Let_def settled_report_failure
      split: sum.split option.split prod.split)


lemma truthy_defined: "truthy v \<Longrightarrow> v \<noteq> None \<and> v \<noteq> Some JNull"
  by (cases v) auto

text \<open>
  Claim C7. For an accepted job (its meta-prompt is truthy) whose Orchestrator stub can
  be obtained: if the model call fails (it rejects, or its answer has no usable form), or
  the write to the bucket fails, or the success report fails, then the last call the job
  makes is the POST of the failure report to the Orchestrator, with status FAILED,
  \<open>r2_path\<close> null and both token counts 0, and the job's promise resolves. Nothing is
  assumed about how the Orchestrator answers the failure report: when that POST fails
  too, the error is dropped and the promise still resolves.
\<close>

theorem failure_report_posted:
  assumes "ORCHESTRATOR_idFromString env (json_member payload ''orchestrator_id'') = Inr orchestratorId"
    and "ORCHESTRATOR_get env orchestratorId = Inr orchestrator"
    and "truthy (json_member payload ''meta_prompt'')"
    and "answer = G_AI_run env ''@cf/meta/llama-3-8b-instruct'' (json_member payload ''meta_prompt'')"
    and "(\<exists>err. answer = Inl err)
       \<or> (\<exists>aiResponse. answer = Inr aiResponse \<and> extract_content aiResponse = None)
       \<or> (\<exists>aiResponse generatedContent costMetrics err.
             answer = Inr aiResponse
             \<and> extract_content aiResponse = Some (generatedContent, costMetrics)
             \<and> R2_BUCKET_put env (json_member payload ''output_r2_path'') generatedContent
                   ''text/html'' = Inl err)
       \<or> (\<exists>aiResponse generatedContent costMetrics written err.
             answer = Inr aiResponse
             \<and> extract_content aiResponse = Some (generatedContent, costMetrics)
             \<and> R2_BUCKET_put env (json_member payload ''output_r2_path'') generatedContent
                   ''text/html'' = Inr written
             \<and> orchestrator report_url (success_report payload costMetrics) = Inl err)"
  shows "settled (handleGeneration payload env) = Inr ()
       \<and> effects (handleGeneration payload env) \<noteq> []
       \<and> last (effects (handleGeneration payload env)) =
           OrchestratorFetch report_url (failure_report payload)"
proof -
  note posts = report_failure_posts [OF assms(1,2), folded failure_report_def]
  have mp: "json_member payload ''meta_prompt'' \<noteq> None"
      "json_member payload ''meta_prompt'' \<noteq> Some JNull"
    using truthy_defined [OF assms(3)] by simp_all
  have "\<exists>made. effects (handleGeneration payload env) =
      made @ [OrchestratorFetch report_url (failure_report payload)]"
    using assms(5)
  proof (elim disjE exE conjE)
    fix err
    assume "answer = Inl err"
    then show ?thesis
      using assms(1,2,4) mp by (simp add: handleGeneration_def Let_def posts)
  next
    fix aiResponse
    assume "answer = Inr aiResponse" "extract_content aiResponse = None"
    then show ?thesis
      using assms(1,2,4) mp by (simp add: handleGeneration_def Let_def posts)
  next
    fix aiResponse generatedContent costMetrics err
    assume "answer = Inr aiResponse"
      "extract_content aiResponse = Some (generatedContent, costMetrics)"
      "R2_BUCKET_put env (json_member payload ''output_r2_path'') generatedContent ''text/html''
         = Inl err"
    then show ?thesis
      using assms(1,2,4) mp by (simp add: handleGeneration_def Let_def posts)
  next
    fix aiResponse generatedContent costMetrics written err
    assume "answer = Inr aiResponse"
      "extract_content aiResponse = Some (generatedContent, costMetrics)"
      "R2_BUCKET_put env (json_member payload ''output_r2_path'') generatedContent ''text/html''
         = Inr written"
      "orchestrator report_url (success_report payload costMetrics) = Inl err"
    then show ?thesis
      using assms(1,2,4) mp
      by (simp add: handleGeneration_def Let_def posts success_report_def)
  qed
  then show ?thesis
    by (auto simp: generation_always_settles)
qed

text \<open>
  The theorem where the Orchestrator is unreachable. When the model call fails, the last
  call is the failure report. When the model and the bucket work, the success report
  fails, the failure report is posted and fails as well, and the job still resolves.
\<close>

theorem failure_report_posted_witness:
  "handleGeneration (generate_payload ''Build a page'')
     (generator_env (Inr (GenObject (Some ''<h1>Test</h1>'') None)) unreachable_stub) =
     \<lparr>effects =
        [R2Put (Some (JStr ''artifacts/wave-1/w1-a1.html'')) ''<h1>Test</h1>'' ''text/html'',
         OrchestratorFetch report_url
           \<lparr>artifact_id = Some (JStr ''w1-a1''),
            r2_path = Some (JStr ''artifacts/wave-1/w1-a1.html''), report_status = SUCCESS,
            cost_metrics = \<lparr>prompt_tokens = 0, completion_tokens = 0\<rparr>\<rparr>,
         OrchestratorFetch report_url
           \<lparr>artifact_id = Some (JStr ''w1-a1''), r2_path = None, report_status = FAILED,
            cost_metrics = \<lparr>prompt_tokens = 0, completion_tokens = 0\<rparr>\<rparr>],
      settled = Inr ()\<rparr>
   \<and> last (effects (handleGeneration (generate_payload ''Build a page'')
        (generator_env (Inl (JsError ''AI service unavailable'')) unreachable_stub))) =
     OrchestratorFetch report_url
       \<lparr>artifact_id = Some (JStr ''w1-a1''), r2_path = None, report_status = FAILED,
        cost_metrics = \<lparr>prompt_tokens = 0, completion_tokens = 0\<rparr>\<rparr>"
proof -
  let ?payload = "generate_payload ''Build a page''"
  let ?env = "generator_env (Inl (JsError ''AI service unavailable'')) unreachable_stub"
  have 1: "ORCHESTRATOR_idFromString ?env (json_member ?payload ''orchestrator_id'') =
      Inr ''orchestrator-1''"
    by (simp add: generator_env_def generate_payload_def)
  have 2: "ORCHESTRATOR_get ?env ''orchestrator-1'' = Inr unreachable_stub"
    by (simp add: generator_env_def)
  have 3: "truthy (json_member ?payload ''meta_prompt'')"
    by (simp add: generate_payload_def)
  have 4: "(\<exists>err. G_AI_run ?env ''@cf/meta/llama-3-8b-instruct''
              (json_member ?payload ''meta_prompt'') = Inl err)"
    by (simp add: generator_env_def)
  have a: "last (effects (handleGeneration ?payload ?env)) =
      OrchestratorFetch report_url (failure_report ?payload)"
    using failure_report_posted [OF 1 2 3 refl disjI1, OF 4] by simp
  have b: "failure_report ?payload =
      \<lparr>artifact_id = Some (JStr ''w1-a1''), r2_path = None, report_status = FAILED,
       cost_metrics = \<lparr>prompt_tokens = 0, completion_tokens = 0\<rparr>\<rparr>"
    by (simp add: failure_report_def generate_payload_def)
  have c: "handleGeneration ?payload
     (generator_env (Inr (GenObject (Some ''<h1>Test</h1>'') None)) unreachable_stub) =
     \<lparr>effects =
        [R2Put (Some (JStr ''artifacts/wave-1/w1-a1.html'')) ''<h1>Test</h1>'' ''text/html'',
         OrchestratorFetch report_url
           \<lparr>artifact_id = Some (JStr ''w1-a1''),
            r2_path = Some (JStr ''artifacts/wave-1/w1-a1.html''), report_status = SUCCESS,
            cost_metrics = \<lparr>prompt_tokens = 0, completion_tokens = 0\<rparr>\<rparr>,
         OrchestratorFetch report_url
           \<lparr>artifact_id = Some (JStr ''w1-a1''), r2_path = None, report_status = FAILED,
            cost_metrics = \<lparr>prompt_tokens = 0, completion_tokens = 0\<rparr>\<rparr>],
      settled = Inr ()\<rparr>"
    by (simp add: handleGeneration_def report_failure_def generator_env_def generate_payload_def
        unreachable_stub_def extract_content_def Let_def)
  show ?thesis
    using a b c by simp
qed

subsection \<open>Validation of the request\<close>

text \<open>
  Claim C6, as amended. A request whose method is not POST is answered 405. A POST whose
  body is no JSON is answered 400. A POST in whose payload one of the four fields
  \<open>orchestrator_id\<close>, \<open>artifact_id\<close>, \<open>meta_prompt\<close>, \<open>output_r2_path\<close> is absent or falsy is
  answered 400, and no job is started. A POST in whose payload all four fields are
  truthy is answered 202 with an empty body, whatever the environment and the fate of the
  job, which is handed to \<open>waitUntil\<close>.
\<close>

theorem generator_fetch_statuses:
  "(request_method request \<noteq> ''POST'' \<longrightarrow>
      generator_fetch request env =
        (\<lparr>status = 405, body = TextBody ''Method not allowed''\<rparr>, None))
   \<and> (request_method request = ''POST'' \<and> request_json request = Inl e \<longrightarrow>
      generator_fetch request env =
        (\<lparr>status = 400, body = TextBody ''Invalid request body''\<rparr>, None))
   \<and> (request_method request = ''POST'' \<and> request_json request = Inr payload
        \<and> (\<exists>field \<in> set required_fields. \<not> truthy (json_member payload field)) \<longrightarrow>
      status (fst (generator_fetch request env)) = 400
      \<and> snd (generator_fetch request env) = None)
   \<and> (request_method request = ''POST'' \<and> request_json request = Inr payload
        \<and> (\<forall>field \<in> set required_fields. truthy (json_member payload field)) \<longrightarrow>
      generator_fetch request env =
        (\<lparr>status = 202, body = NoBody\<rparr>, Some (handleGeneration payload env)))"
proof (intro conjI impI)
  assume "request_method request \<noteq> ''POST''"
  then show "generator_fetch request env =
      (\<lparr>status = 405, body = TextBody ''Method not allowed''\<rparr>, None)"
    by (simp add: generator_fetch_def)
next
  assume "request_method request = ''POST'' \<and> request_json request = Inl e"
  then show "generator_fetch request env =
      (\<lparr>status = 400, body = TextBody ''Invalid request body''\<rparr>, None)"
    by (simp add: generator_fetch_def)
next
  assume a: "request_method request = ''POST'' \<and> request_json request = Inr payload
      \<and> (\<exists>field \<in> set required_fields. \<not> truthy (json_member payload field))"
  then have "status (fst (generator_fetch request env)) = 400
      \<and> snd (generator_fetch request env) = None"
    by (cases "payload = JNull")
       (auto simp: generator_fetch_def get_prop_def required_fields_def)
  then show "status (fst (generator_fetch request env)) = 400"
    and "snd (generator_fetch request env) = None"
    by simp_all
next
  assume a: "request_method request = ''POST'' \<and> request_json request = Inr payload
      \<and> (\<forall>field \<in> set required_fields. truthy (json_member payload field))"
  then have "payload \<noteq> JNull"
    by (auto simp: required_fields_def)
  with a show "generator_fetch request env =
      (\<lparr>status = 202, body = NoBody\<rparr>, Some (handleGeneration payload env))"
    by (simp add: generator_fetch_def get_prop_def required_fields_def)
qed

text \<open>
  The theorem on a GET, on a POST that lacks \<open>output_r2_path\<close>, and on a POST with all
  four fields.
\<close>

theorem generator_fetch_statuses_witness:
  "generator_fetch \<lparr>request_method = ''GET'', request_json = Inl (JsSyntaxError ''Unexpected end of JSON input'')\<rparr>
      (generator_env (Inr (GenString ''<h1>Test</h1>'')) unreachable_stub) =
     (\<lparr>status = 405, body = TextBody ''Method not allowed''\<rparr>, None)
   \<and> status (fst (generator_fetch
        (post_json (JObj [(''orchestrator_id'', JStr ''orchestrator-1''),
                          (''artifact_id'', JStr ''w1-a1''),
                          (''meta_prompt'', JStr ''Build a page'')]))
        (generator_env (Inr (GenString ''<h1>Test</h1>'')) unreachable_stub))) = 400
   \<and> fst (generator_fetch (post_json (generate_payload ''Build a page''))
        (generator_env (Inr (GenString ''<h1>Test</h1>'')) unreachable_stub)) =
     \<lparr>status = 202, body = NoBody\<rparr>"
proof -
  let ?env = "generator_env (Inr (GenString ''<h1>Test</h1>'')) unreachable_stub"
  let ?get = "\<lparr>request_method = ''GET'',
               request_json = Inl (JsSyntaxError ''Unexpected end of JSON input'')\<rparr> :: json Request"
  let ?short = "JObj [(''orchestrator_id'', JStr ''orchestrator-1''),
                      (''artifact_id'', JStr ''w1-a1''), (''meta_prompt'', JStr ''Build a page'')]"
  let ?full = "generate_payload ''Build a page''"
  have a: "generator_fetch ?get ?env =
      (\<lparr>status = 405, body = TextBody ''Method not allowed''\<rparr>, None)"
    by (rule generator_fetch_statuses [of ?get ?env, THEN conjunct1, THEN mp]) simp
  have b: "status (fst (generator_fetch (post_json ?short) ?env)) = 400"
    by (rule generator_fetch_statuses [of "post_json ?short" ?env _ ?short,
          THEN conjunct2, THEN conjunct2, THEN conjunct1, THEN mp, THEN conjunct1])
       (simp add: post_json_def required_fields_def)
  have c: "generator_fetch (post_json ?full) ?env =
      (\<lparr>status = 202, body = NoBody\<rparr>, Some (handleGeneration ?full ?env))"
    by (rule generator_fetch_statuses [of "post_json ?full" ?env _ ?full,
          THEN conjunct2, THEN conjunct2, THEN conjunct2, THEN mp])
       (simp add: post_json_def required_fields_def generate_payload_def)
  show ?thesis
    using a b c by simp
qed

text \<open>
  Claim C6 as first stated, that a POST with all four fields present is answered 202,
  fails on a payload in which all four fields are present and \<open>meta_prompt\<close> is the empty
  string: the answer is 400.
\<close>

theorem present_but_empty_field_counterexample:
  "json_member (generate_payload []) ''orchestrator_id'' = Some (JStr ''orchestrator-1'')
   \<and> json_member (generate_payload []) ''artifact_id'' = Some (JStr ''w1-a1'')
   \<and> json_member (generate_payload []) ''meta_prompt'' = Some (JStr [])
   \<and> json_member (generate_payload []) ''output_r2_path'' =
       Some (JStr ''artifacts/wave-1/w1-a1.html'')
   \<and> generator_fetch (post_json (generate_payload []))
       (generator_env (Inr (GenString ''<h1>Test</h1>'')) unreachable_stub) =
     (\<lparr>status = 400, body = TextBody ''Missing required fields''\<rparr>, None)"
  by (simp add: generator_fetch_def post_json_def generate_payload_def get_prop_def)

lemma json_member_removed:
  "json_member (JObj (filter (\<lambda>(k, v). k \<noteq> field) ms)) field = None"
  by (auto simp: map_of_eq_None_iff)

text \<open>
  Claim C10. A POST whose payload is an object in which one of the four required fields
  is present with a falsy value (the empty string, 0, \<open>false\<close>, \<open>null\<close>) is answered 400
  with \<open>Missing required fields\<close>, and so is the same request with that field removed:
  the two responses are equal.
\<close>

theorem falsy_field_rejected:
  assumes "request_method request = ''POST''"
    and "request_json request = Inr (JObj ms)"
    and "field \<in> set required_fields"
    and "json_member (JObj ms) field = Some v"
    and "\<not> truthy (Some v)"
  shows "generator_fetch request env =
           (\<lparr>status = 400, body = TextBody ''Missing required fields''\<rparr>, None)
       \<and> generator_fetch
           (request\<lparr>request_json := Inr (JObj (filter (\<lambda>(k, v). k \<noteq> field) ms))\<rparr>) env =
         generator_fetch request env"
proof -
  have falsy: "\<not> truthy (json_member (JObj ms) field)"
    using assms(4,5) by simp
  have absent: "\<not> truthy (json_member (JObj (filter (\<lambda>(k, v). k \<noteq> field) ms)) field)"
    by (simp only: json_member_removed truthy.simps not_False_eq_True)
  have a: "generator_fetch request env =
      (\<lparr>status = 400, body = TextBody ''Missing required fields''\<rparr>, None)"
    using assms(1,2,3) falsy
    by (auto simp: generator_fetch_def get_prop_def required_fields_def)
  have b: "generator_fetch
      (request\<lparr>request_json := Inr (JObj (filter (\<lambda>(k, v). k \<noteq> field) ms))\<rparr>) env =
      (\<lparr>status = 400, body = TextBody ''Missing required fields''\<rparr>, None)"
    using assms(1,3) absent
    by (auto simp: generator_fetch_def get_prop_def required_fields_def)
  show ?thesis
    using a b by simp
qed

text \<open>
  The theorem on a payload whose \<open>meta_prompt\<close> is the empty string, and on the payload
  without \<open>meta_prompt\<close>.
\<close>

theorem falsy_field_rejected_witness:
  "generator_fetch (post_json (generate_payload []))
       (generator_env (Inr (GenString ''<h1>Test</h1>'')) unreachable_stub) =
     (\<lparr>status = 400, body = TextBody ''Missing required fields''\<rparr>, None)
   \<and> generator_fetch
       (post_json (JObj [(''orchestrator_id'', JStr ''orchestrator-1''),
                         (''artifact_id'', JStr ''w1-a1''),
                         (''output_r2_path'', JStr ''artifacts/wave-1/w1-a1.html'')]))
       (generator_env (Inr (GenString ''<h1>Test</h1>'')) unreachable_stub) =
     (\<lparr>status = 400, body = TextBody ''Missing required fields''\<rparr>, None)"
proof -
  let ?env = "generator_env (Inr (GenString ''<h1>Test</h1>'')) unreachable_stub"
  let ?ms = "[(''orchestrator_id'', JStr ''orchestrator-1''), (''artifact_id'', JStr ''w1-a1''),
              (''meta_prompt'', JStr []),
              (''output_r2_path'', JStr ''artifacts/wave-1/w1-a1.html'')]"
  have 1: "request_method (post_json (JObj ?ms)) = ''POST''"
    by (simp add: post_json_def)
  have 2: "request_json (post_json (JObj ?ms)) = Inr (JObj ?ms)"
    by (simp add: post_json_def)
  have 3: "''meta_prompt'' \<in> set required_fields"
    by (simp add: required_fields_def)
  have 4: "json_member (JObj ?ms) ''meta_prompt'' = Some (JStr [])"
    by simp
  have 5: "\<not> truthy (Some (JStr []))"
    by simp
  show ?thesis
    using falsy_field_rejected [OF 1 2 3 4 5, of ?env]
    by (simp add: post_json_def generate_payload_def)
qed

end
